theory Spec2Isabelle
  imports Main "HOL-Library.AList" "HOL-Library.Word"
begin

section \<open>Errors\<close>

text \<open>
  Every error the controller can return or run into. The API machinery's status errors
  are \<open>kerror\<close>; \<open>kerrors.IsNotFound\<close> and \<open>kerrors.IsAlreadyExists\<close> test for one
  of them. An error built by \<open>fmt.Errorf\<close> with the verb \<open>%v\<close> is a new plain error
  that only carries the text of the one it was made from, so each such place of the source
  has a constructor of its own. A Go run-time panic is an error value too.
\<close>

datatype kerror = NotFound | AlreadyExists | Conflict | Unavailable

datatype error =
    ApiError kerror
  | GetOperatorConfigMapFailed kerror
  | SyntaxError string
  | ParseBoolFailed string
  | VerifyStorageClusterCRDFailed kerror
  | ListSubscriptionsFailed
  | SubscriptionNotFound
  | OwnerError string
  | MutateFnChangedKey
  | OtherError string
  | IndexOutOfRange nat nat
  | NilMapAssignment
  | NilPointerDereference

definition IsNotFound :: "kerror \<Rightarrow> bool" where
  "IsNotFound e = (e = NotFound)"

definition IsAlreadyExists :: "kerror \<Rightarrow> bool" where
  "IsAlreadyExists e = (e = AlreadyExists)"

section \<open>The string functions of the Go library that the controller calls\<close>

text \<open>
  A Go string is a sequence of bytes, here a \<open>string\<close>. \<open>strings.Split(s, sep)\<close> for a
  separator of one byte: the pieces between the separators, one more than there are
  separators (so the empty string gives one empty piece).
\<close>

fun Split :: "string \<Rightarrow> char \<Rightarrow> string list" where
  "Split [] sep = [[]]"
| "Split (c # cs) sep =
     (if c = sep then [] # Split cs sep
      else (case Split cs sep of [] \<Rightarrow> [[c]] | l # ls \<Rightarrow> (c # l) # ls))"

text \<open>
  \<open>strings.SplitN(s, sep, 2)\<close> for a separator of one byte: at most two pieces, cut at the
  first separator; a string without the separator is returned as the only piece.
\<close>

definition SplitN2 :: "string \<Rightarrow> char \<Rightarrow> string list" where
  "SplitN2 s sep =
     (if sep \<in> set s
      then [takeWhile (\<lambda>c. c \<noteq> sep) s, tl (dropWhile (\<lambda>c. c \<noteq> sep) s)]
      else [s])"

text \<open>
  \<open>strings.TrimSpace\<close> removes the leading and trailing white space as Unicode defines it
  (\<open>unicode.IsSpace\<close>). On the bytes of the string these are the six ASCII characters
  tab, line feed, vertical tab, form feed, carriage return and space, and the UTF-8
  encodings of U+0085, U+00A0, U+1680, U+2000 to U+200A, U+2028, U+2029, U+202F, U+205F
  and U+3000. A byte sequence that is not valid UTF-8 decodes to the replacement rune,
  which is no space, so trimming stops there.
\<close>

definition asciiSpace :: "char \<Rightarrow> bool" where
  "asciiSpace c =
     (c = CHR 0x09 \<or> c = CHR 0x0A \<or> c = CHR 0x0B \<or> c = CHR 0x0C \<or> c = CHR 0x0D \<or> c = CHR 0x20)"

definition space2 :: "string list" where
  "space2 = [[CHR 0xC2, CHR 0x85], [CHR 0xC2, CHR 0xA0]]"

definition space3 :: "string list" where
  "space3 =
     [[CHR 0xE1, CHR 0x9A, CHR 0x80],
      [CHR 0xE2, CHR 0x80, CHR 0x80], [CHR 0xE2, CHR 0x80, CHR 0x81],
      [CHR 0xE2, CHR 0x80, CHR 0x82], [CHR 0xE2, CHR 0x80, CHR 0x83],
      [CHR 0xE2, CHR 0x80, CHR 0x84], [CHR 0xE2, CHR 0x80, CHR 0x85],
      [CHR 0xE2, CHR 0x80, CHR 0x86], [CHR 0xE2, CHR 0x80, CHR 0x87],
      [CHR 0xE2, CHR 0x80, CHR 0x88], [CHR 0xE2, CHR 0x80, CHR 0x89],
      [CHR 0xE2, CHR 0x80, CHR 0x8A],
      [CHR 0xE2, CHR 0x80, CHR 0xA8], [CHR 0xE2, CHR 0x80, CHR 0xA9],
      [CHR 0xE2, CHR 0x80, CHR 0xAF],
      [CHR 0xE2, CHR 0x81, CHR 0x9F],
      [CHR 0xE3, CHR 0x80, CHR 0x80]]"

text \<open>The width in bytes of the white-space rune a string starts with, 0 when it starts with none.\<close>

definition leadingSpace :: "string \<Rightarrow> nat" where
  "leadingSpace s =
     (case s of [] \<Rightarrow> 0
      | c # cs \<Rightarrow>
          if asciiSpace c then 1
          else if take 2 s \<in> set space2 then 2
          else if take 3 s \<in> set space3 then 3
          else 0)"

text \<open>The width in bytes of the white-space rune a string ends with, 0 when it ends with none.\<close>

definition trailingSpace :: "string \<Rightarrow> nat" where
  "trailingSpace s =
     (if s = [] then 0
      else if asciiSpace (last s) then 1
      else if drop (length s - 2) s \<in> set space2 then 2
      else if drop (length s - 3) s \<in> set space3 then 3
      else 0)"

lemma leadingSpace_pos_nonempty: "0 < leadingSpace s \<Longrightarrow> 0 < length s"
  by (cases s) (auto simp: leadingSpace_def)

lemma trailingSpace_pos_nonempty: "0 < trailingSpace s \<Longrightarrow> 0 < length s"
  by (cases s) (auto simp: trailingSpace_def)

function TrimLeftSpace :: "string \<Rightarrow> string" where
  "TrimLeftSpace s =
     (if leadingSpace s = 0 then s else TrimLeftSpace (drop (leadingSpace s) s))"
  by pat_completeness auto
termination
  by (relation "measure length") (auto dest: leadingSpace_pos_nonempty intro: diff_less)

function TrimRightSpace :: "string \<Rightarrow> string" where
  "TrimRightSpace s =
     (if trailingSpace s = 0 then s
      else TrimRightSpace (take (length s - trailingSpace s) s))"
  by pat_completeness auto
termination
  by (relation "measure length") (auto dest: trailingSpace_pos_nonempty intro: diff_less)

declare TrimLeftSpace.simps [simp del] TrimRightSpace.simps [simp del]

definition TrimSpace :: "string \<Rightarrow> string" where
  "TrimSpace s = TrimRightSpace (TrimLeftSpace s)"

section \<open>Objects of the cluster\<close>

text \<open>
  \<open>metav1.ObjectMeta\<close>, with the fields the controller reads or writes. A Go map is a
  partial function. The labels are an option, \<open>None\<close> for a nil map: a nil and an empty
  label map read the same, but \<open>predicate.LabelChangedPredicate\<close> compares the labels with
  \<open>reflect.DeepEqual\<close>, which tells them apart. Nothing tells a nil from an empty
  annotation map here; both are \<open>Map.empty\<close>.
\<close>

record OwnerReference =
  refAPIVersion :: string
  refKind :: string
  refName :: string
  refUID :: string
  refController :: bool

record ObjectMeta =
  Name :: string
  Namespace :: string
  UID :: string
  ResourceVersion :: string
  Labels :: "(string \<rightharpoonup> string) option"
  Annotations :: "string \<rightharpoonup> string"
  OwnerReferences :: "OwnerReference list"

text \<open>
  \<open>admissionregistration/v1\<close>: a validating webhook. A pointer that may be nil is an
  option; \<open>CABundle\<close> is a byte slice (nil and empty are both \<open>[]\<close>); the fields the
  controller never names (rules, side effects, review versions, ...) are \<open>whOther\<close>.
\<close>

type_synonym byte = "8 word"

record ServiceReference =
  svcNamespace :: string
  svcName :: string
  svcOther :: string

record WebhookClientConfig =
  URL :: "string option"
  Service :: "ServiceReference option"
  CABundle :: "byte list"

record LabelSelector =
  MatchLabels :: "string \<rightharpoonup> string"

record ValidatingWebhook =
  whName :: string
  ClientConfig :: WebhookClientConfig
  NamespaceSelector :: "LabelSelector option"
  ObjectSelector :: "LabelSelector option"
  whOther :: string

text \<open>
  An object of the API: its metadata and the fields of the kinds the controller looks
  into: \<open>Data\<close> of a ConfigMap (nil is \<open>None\<close>: the controller tests for it), \<open>Webhooks\<close>
  of a ValidatingWebhookConfiguration, \<open>Spec.Package\<close> of a Subscription,
  \<open>Status.Desired.Version\<close> of the ClusterVersion. Everything else an object holds (the
  pod templates of a Deployment, the rules of a PrometheusRule, ...) is \<open>Content\<close>. The
  kind of an object is its Go type; it is not stored in the object but given with every
  call of the client.
\<close>

record Object =
  meta :: ObjectMeta
  Data :: "(string \<rightharpoonup> string) option"
  Webhooks :: "ValidatingWebhook list"
  Package :: string
  DesiredVersion :: string
  Content :: string

datatype Kind =
    ConfigMapKind | CustomResourceDefinitionKind | SubscriptionKind
  | ValidatingWebhookConfigurationKind | ClusterVersionKind | DeploymentKind
  | DaemonSetKind | ServiceKind | ConsolePluginKind | SecurityContextConstraintsKind
  | CSIDriverKind | PrometheusRuleKind

text \<open>The zero value of a Go struct, and \<open>metav1.ObjectMeta{Name: n, Namespace: ns}\<close>.\<close>

definition emptyMeta :: ObjectMeta where
  "emptyMeta = \<lparr>Name = [], Namespace = [], UID = [], ResourceVersion = [],
     Labels = None, Annotations = Map.empty, OwnerReferences = []\<rparr>"

definition emptyObject :: Object where
  "emptyObject = \<lparr>meta = emptyMeta, Data = None, Webhooks = [], Package = [],
     DesiredVersion = [], Content = []\<rparr>"

text \<open>\<open>GetLabels\<close> read as a map: a nil map has no key.\<close>

definition labelsOrEmpty :: "ObjectMeta \<Rightarrow> (string \<rightharpoonup> string)" where
  "labelsOrEmpty m = (case Labels m of None \<Rightarrow> Map.empty | Some l \<Rightarrow> l)"

definition namedObject :: "string \<Rightarrow> string \<Rightarrow> Object" where
  "namedObject ns n = emptyObject\<lparr>meta := emptyMeta\<lparr>Name := n, Namespace := ns\<rparr>\<rparr>"

section \<open>The client and the object store\<close>

text \<open>
  The remote store holds objects under (kind, namespace, name). The cluster also carries
  what the environment does to the next calls (\<open>faults\<close>: the head is taken by each call;
  \<open>Some e\<close> makes that call fail with \<open>e\<close> and change nothing, \<open>None\<close> or an exhausted
  list lets it through) and the log of the calls the controller has issued. A create of
  an object that exists is refused with AlreadyExists; an update of an object that does
  not exist with NotFound; an update that carries a version token other than the stored
  one with Conflict (an update without a token is unconditional).
\<close>

type_synonym ObjectKey = "Kind \<times> string \<times> string"

datatype Call =
    GetCall ObjectKey
  | ListCall Kind string
  | CreateCall ObjectKey
  | UpdateCall ObjectKey

record Cluster =
  objects :: "(ObjectKey \<times> Object) list"
  faults :: "kerror option list"
  calls :: "Call list"

fun writtenKey :: "Call \<Rightarrow> ObjectKey option" where
  "writtenKey (CreateCall k) = Some k"
| "writtenKey (UpdateCall k) = Some k"
| "writtenKey (GetCall k) = None"
| "writtenKey (ListCall k ns) = None"

definition keyOf :: "Kind \<Rightarrow> Object \<Rightarrow> ObjectKey" where
  "keyOf k obj = (k, Namespace (meta obj), Name (meta obj))"

definition issue :: "Call \<Rightarrow> Cluster \<Rightarrow> kerror option \<times> Cluster" where
  "issue c s =
     (case faults s of
        [] \<Rightarrow> (None, s\<lparr>calls := calls s @ [c]\<rparr>)
      | f # fs \<Rightarrow> (f, s\<lparr>faults := fs, calls := calls s @ [c]\<rparr>))"

text \<open>The version token the store gives an object it has just written.\<close>

definition nextVersion :: "string \<Rightarrow> string" where
  "nextVersion rv = CHR ''1'' # rv"

definition clientGet :: "Kind \<Rightarrow> string \<Rightarrow> string \<Rightarrow> Cluster \<Rightarrow> (kerror + Object) \<times> Cluster" where
  "clientGet k ns n s =
     (case issue (GetCall (k, ns, n)) s of
        (Some e, s1) \<Rightarrow> (Inl e, s1)
      | (None, s1) \<Rightarrow>
          (case map_of (objects s1) (k, ns, n) of
             None \<Rightarrow> (Inl NotFound, s1)
           | Some obj \<Rightarrow> (Inr obj, s1)))"

definition clientList :: "Kind \<Rightarrow> string \<Rightarrow> Cluster \<Rightarrow> (kerror + Object list) \<times> Cluster" where
  "clientList k ns s =
     (case issue (ListCall k ns) s of
        (Some e, s1) \<Rightarrow> (Inl e, s1)
      | (None, s1) \<Rightarrow>
          (Inr (map snd (filter (\<lambda>(key, obj). fst key = k \<and> fst (snd key) = ns) (objects s1))), s1))"

definition clientCreate :: "Kind \<Rightarrow> Object \<Rightarrow> Cluster \<Rightarrow> (kerror + Object) \<times> Cluster" where
  "clientCreate k obj s =
     (case issue (CreateCall (keyOf k obj)) s of
        (Some e, s1) \<Rightarrow> (Inl e, s1)
      | (None, s1) \<Rightarrow>
          (case map_of (objects s1) (keyOf k obj) of
             Some existing \<Rightarrow> (Inl AlreadyExists, s1)
           | None \<Rightarrow>
               let stored = obj\<lparr>meta := (meta obj)\<lparr>ResourceVersion := nextVersion []\<rparr>\<rparr>
               in (Inr stored, s1\<lparr>objects := AList.update (keyOf k obj) stored (objects s1)\<rparr>)))"

definition clientUpdate :: "Kind \<Rightarrow> Object \<Rightarrow> Cluster \<Rightarrow> (kerror + Object) \<times> Cluster" where
  "clientUpdate k obj s =
     (case issue (UpdateCall (keyOf k obj)) s of
        (Some e, s1) \<Rightarrow> (Inl e, s1)
      | (None, s1) \<Rightarrow>
          (case map_of (objects s1) (keyOf k obj) of
             None \<Rightarrow> (Inl NotFound, s1)
           | Some existing \<Rightarrow>
               if ResourceVersion (meta obj) \<noteq> []
                  \<and> ResourceVersion (meta obj) \<noteq> ResourceVersion (meta existing)
               then (Inl Conflict, s1)
               else
                 let stored = obj\<lparr>meta := (meta obj)\<lparr>ResourceVersion :=
                                nextVersion (ResourceVersion (meta existing))\<rparr>\<rparr>
                 in (Inr stored, s1\<lparr>objects := AList.update (keyOf k obj) stored (objects s1)\<rparr>)))"

text \<open>
  The result of a step of the controller: an error or a value, and the cluster after it.
  \<open>thenDo\<close> is the Go idiom \<open>if err != nil { return err }\<close>: the first error ends the
  sequence.
\<close>

definition thenDo ::
  "(error + 'a) \<times> Cluster \<Rightarrow> ('a \<Rightarrow> Cluster \<Rightarrow> (error + 'b) \<times> Cluster) \<Rightarrow> (error + 'b) \<times> Cluster" where
  "thenDo r f = (case r of (Inl e, s) \<Rightarrow> (Inl e, s) | (Inr x, s) \<Rightarrow> f x s)"

section \<open>controllerutil: CreateOrUpdate and SetControllerReference\<close>

datatype OperationResult = OperationResultNone | OperationResultCreated | OperationResultUpdated

text \<open>
  \<open>equality.Semantic.DeepEqual\<close>: equality of the two objects, where a nil map and an
  empty map are the same.
\<close>

definition nilIfEmpty :: "(string \<rightharpoonup> string) option \<Rightarrow> (string \<rightharpoonup> string) option" where
  "nilIfEmpty m = (if m = Some Map.empty then None else m)"

definition semanticForm :: "Object \<Rightarrow> Object" where
  "semanticForm a =
     a\<lparr>meta := (meta a)\<lparr>Labels := nilIfEmpty (Labels (meta a))\<rparr>, Data := nilIfEmpty (Data a)\<rparr>"

definition DeepEqual :: "Object \<Rightarrow> Object \<Rightarrow> bool" where
  "DeepEqual a b = (semanticForm a = semanticForm b)"

text \<open>
  A mutate function is a Go closure that changes the object in place and may fail; here it
  takes the object and returns the changed one. \<open>mutate\<close> refuses a change of the name or
  the namespace.
\<close>

definition mutate :: "(Object \<Rightarrow> error + Object) \<Rightarrow> string \<times> string \<Rightarrow> Object \<Rightarrow> error + Object" where
  "mutate f key obj =
     (case f obj of
        Inl e \<Rightarrow> Inl e
      | Inr obj' \<Rightarrow>
          if (Namespace (meta obj'), Name (meta obj')) \<noteq> key then Inl MutateFnChangedKey
          else Inr obj')"

definition CreateOrUpdate ::
  "Kind \<Rightarrow> Object \<Rightarrow> (Object \<Rightarrow> error + Object) \<Rightarrow> Cluster \<Rightarrow> (error + OperationResult) \<times> Cluster" where
  "CreateOrUpdate k obj f s =
     (let key = (Namespace (meta obj), Name (meta obj)) in
      case clientGet k (fst key) (snd key) s of
        (Inl e, s1) \<Rightarrow>
          if \<not> IsNotFound e then (Inl (ApiError e), s1)
          else
            (case mutate f key obj of
               Inl e \<Rightarrow> (Inl e, s1)
             | Inr obj1 \<Rightarrow>
                 (case clientCreate k obj1 s1 of
                    (Inl e, s2) \<Rightarrow> (Inl (ApiError e), s2)
                  | (Inr stored, s2) \<Rightarrow> (Inr OperationResultCreated, s2)))
      | (Inr existing, s1) \<Rightarrow>
          (case mutate f key existing of
             Inl e \<Rightarrow> (Inl e, s1)
           | Inr obj1 \<Rightarrow>
               if DeepEqual existing obj1 then (Inr OperationResultNone, s1)
               else
                 (case clientUpdate k obj1 s1 of
                    (Inl e, s2) \<Rightarrow> (Inl (ApiError e), s2)
                  | (Inr stored, s2) \<Rightarrow> (Inr OperationResultUpdated, s2))))"

text \<open>
  \<open>controllerutil.SetControllerReference\<close>; both owners the controller passes are
  Deployments (API version \<open>apps/v1\<close>). The owner is validated (a namespaced owner cannot
  own a cluster-scoped object or one of another namespace), an object that another
  controller owns is refused, and the reference is inserted, or replaces the one to the
  same owner. Two references are to the same owner when their API groups, kinds and names
  agree; \<open>schema.ParseGroupVersion\<close> reads the group of an API version and fails on more
  than one slash.
\<close>

definition ParseGroup :: "string \<Rightarrow> string option" where
  "ParseGroup gv =
     (if length gv = 0 \<or> gv = ''/'' then Some []
      else if count_list gv (CHR ''/'') = 0 then Some []
      else if count_list gv (CHR ''/'') = 1 then Some (takeWhile (\<lambda>ch. ch \<noteq> CHR ''/'') gv)
      else None)"

definition referSameObject :: "OwnerReference \<Rightarrow> OwnerReference \<Rightarrow> bool" where
  "referSameObject a b =
     (case ParseGroup (refAPIVersion a) of
        None \<Rightarrow> False
      | Some aGroup \<Rightarrow>
          (case ParseGroup (refAPIVersion b) of
             None \<Rightarrow> False
           | Some bGroup \<Rightarrow> aGroup = bGroup \<and> refKind a = refKind b \<and> refName a = refName b))"

fun upsertOwnerRef :: "OwnerReference \<Rightarrow> OwnerReference list \<Rightarrow> OwnerReference list" where
  "upsertOwnerRef ref [] = [ref]"
| "upsertOwnerRef ref (r # rs) =
     (if referSameObject r ref then ref # rs else r # upsertOwnerRef ref rs)"

definition GetControllerOf :: "Object \<Rightarrow> OwnerReference option" where
  "GetControllerOf obj = find refController (OwnerReferences (meta obj))"

definition SetControllerReference :: "Object \<Rightarrow> Object \<Rightarrow> error + Object" where
  "SetControllerReference owner controlled =
     (let ownerNs = Namespace (meta owner); objNs = Namespace (meta controlled) in
      if ownerNs \<noteq> [] \<and> objNs = []
      then Inl (OwnerError ''cluster-scoped resource must not have a namespace-scoped owner'')
      else if ownerNs \<noteq> [] \<and> ownerNs \<noteq> objNs
      then Inl (OwnerError ''cross-namespace owner references are disallowed'')
      else
        let ref = \<lparr>refAPIVersion = ''apps/v1'', refKind = ''Deployment'', refName = Name (meta owner),
                   refUID = UID (meta owner), refController = True\<rparr>;
            owned = controlled\<lparr>meta := (meta controlled)\<lparr>OwnerReferences :=
                      upsertOwnerRef ref (OwnerReferences (meta controlled))\<rparr>\<rparr>
        in case GetControllerOf controlled of
             None \<Rightarrow> Inr owned
           | Some existing \<Rightarrow>
               if \<not> referSameObject existing ref
               then Inl (OwnerError ''object is already owned by another controller'')
               else Inr owned)"

section \<open>applyLabels\<close>

text \<open>
  The loop of \<open>applyLabels\<close> over the lines: an empty line is skipped; every other line is
  cut by \<open>strings.SplitN(line, ":", 2)\<close> and \<open>parts[0]\<close>, \<open>parts[1]\<close> are read. Reading
  \<open>parts[1]\<close> of a slice of length 1 is the Go run-time panic "index out of range [1] with
  length 1".
\<close>

fun applyLabels_loop :: "string list \<Rightarrow> (string \<rightharpoonup> string) \<Rightarrow> error + (string \<rightharpoonup> string)" where
  "applyLabels_loop [] promLabel = Inr promLabel"
| "applyLabels_loop (line # rest) promLabel =
     (if length line = 0 then applyLabels_loop rest promLabel
      else
        let parts = SplitN2 line (CHR '':'') in
        if length parts \<le> 1 then Inl (IndexOutOfRange 1 (length parts))
        else
          let key = TrimSpace (parts ! 0);
              val = TrimSpace (parts ! 1)
          in applyLabels_loop rest (promLabel(key \<mapsto> val)))"

definition applyLabels :: "string \<Rightarrow> ObjectMeta \<Rightarrow> error + ObjectMeta" where
  "applyLabels label t =
     (case applyLabels_loop (Split label (CHR 0x0A)) Map.empty of
        Inl e \<Rightarrow> Inl e
      | Inr promLabel \<Rightarrow> Inr (t\<lparr>Labels := Some promLabel\<rparr>))"

text \<open>
  The label parser as the specification words it: the lines of the text, the empty ones
  left out, each cut at its first colon into a key and a value with the white space
  around them trimmed; a later line overwrites an earlier one with the same key.
\<close>

definition labelLines :: "string \<Rightarrow> string list" where
  "labelLines label = filter (\<lambda>line. line \<noteq> []) (Split label (CHR 0x0A))"

definition lineKey :: "string \<Rightarrow> string" where
  "lineKey line = TrimSpace (takeWhile (\<lambda>c. c \<noteq> CHR '':'') line)"

definition lineValue :: "string \<Rightarrow> string" where
  "lineValue line = TrimSpace (drop 1 (dropWhile (\<lambda>c. c \<noteq> CHR '':'') line))"

definition parsedLabels :: "string \<Rightarrow> (string \<rightharpoonup> string)" where
  "parsedLabels label = map_of (rev (map (\<lambda>line. (lineKey line, lineValue line)) (labelLines label)))"

definition hasColon :: "string \<Rightarrow> bool" where
  "hasColon line = (CHR '':'' \<in> set line)"

definition wellFormedLabels :: "string \<Rightarrow> bool" where
  "wellFormedLabels label = list_all hasColon (labelLines label)"

section \<open>The controller\<close>

text \<open>
  The fields of \<open>ClusterVersionReconciler\<close> that are set from outside. The unexported fields
  (\<open>consoleDeployment\<close>, \<open>scc\<close>, \<open>cephFSDeployment\<close>, ...) only hold an object between
  two statements of one pass; they are local values here.
\<close>

record Reconciler =
  OperatorDeployment :: Object
  OperatorNamespace :: string
  ConsolePort :: "32 word"

text \<open>
  The packages \<open>pkg/templates\<close>, \<open>pkg/csi\<close> and \<open>pkg/console\<close> and the embedded file
  \<open>pvc-rules.yaml\<close> are not among the sources. What the controller takes from them is a
  parameter: the well-known names, the object templates and the desired-state functions.
  \<open>csi.InitializeSidecars\<close> selects the sidecar images for a cluster version and keeps
  them in package variables that the four workload desired-state functions read; here
  these functions take the version. \<open>pvcPrometheusRules\<close> is the result of decoding the
  embedded rule file.
\<close>

record Pkg =
  SubscriptionWebhookName :: string
  SubscriptionValidatingWebhook :: ValidatingWebhook
  MonConfigMapName :: string
  EncryptionConfigMapName :: string
  CephFSCSIDriver :: Object
  RbdCSIDriver :: Object
  SCCName :: string
  CephFSDeploymentName :: string
  CephFSDaemonSetName :: string
  RBDDeploymentName :: string
  RBDDaemonSetName :: string
  GetCephFSDriverName :: string
  GetRBDDriverName :: string
  InitializeSidecars :: "string \<Rightarrow> error option"
  SetSecurityContextConstraintsDesiredState :: "Object \<Rightarrow> string \<Rightarrow> Object"
  SetCephFSDeploymentDesiredState :: "string \<Rightarrow> Object \<Rightarrow> Object"
  SetCephFSDaemonSetDesiredState :: "string \<Rightarrow> Object \<Rightarrow> Object"
  SetRBDDeploymentDesiredState :: "string \<Rightarrow> Object \<Rightarrow> Object"
  SetRBDDaemonSetDesiredState :: "string \<Rightarrow> Object \<Rightarrow> Object"
  pvcPrometheusRules :: "error + Object"
  ConsoleDeploymentName :: string
  NginxConfigMapName :: string
  GetNginxConf :: string
  GetService :: "32 word \<Rightarrow> string \<Rightarrow> Object"
  GetConsolePlugin :: "32 word \<Rightarrow> string \<Rightarrow> Object"

record Request =
  reqNamespace :: string
  reqName :: string

definition operatorConfigMapName :: string where
  "operatorConfigMapName = ''ocs-client-operator-config''"

definition clusterVersionName :: string where
  "clusterVersionName = ''version''"

definition deployCSIKey :: string where
  "deployCSIKey = ''DEPLOY_CSI''"

definition subscriptionLabelKey :: string where
  "subscriptionLabelKey = ''managed-by''"

definition subscriptionLabelValue :: string where
  "subscriptionLabelValue = ''webhook.subscription.ocs.openshift.io''"

text \<open>
  \<open>data := cm.Data; if data == nil { data = map[string]string{} }\<close>, and reading a key
  of a Go map of strings: the zero value for a missing key or a nil map.
\<close>

definition dataOrEmpty :: "Object \<Rightarrow> (string \<rightharpoonup> string)" where
  "dataOrEmpty obj = (case Data obj of None \<Rightarrow> Map.empty | Some d \<Rightarrow> d)"

definition dataAt :: "Object \<Rightarrow> string \<Rightarrow> string" where
  "dataAt obj k =
     (case Data obj of None \<Rightarrow> [] | Some d \<Rightarrow> (case d k of None \<Rightarrow> [] | Some v \<Rightarrow> v))"

definition createOrUpdate ::
  "Kind \<Rightarrow> Object \<Rightarrow> (Object \<Rightarrow> error + Object) \<Rightarrow> Cluster \<Rightarrow> (error + unit) \<times> Cluster" where
  "createOrUpdate k obj f s =
     (case CreateOrUpdate k obj f s of
        (Inl e, s1) \<Rightarrow> (Inl e, s1)
      | (Inr result, s1) \<Rightarrow> (Inr (), s1))"

definition own :: "Reconciler \<Rightarrow> Object \<Rightarrow> error + Object" where
  "own c obj = SetControllerReference (OperatorDeployment c) obj"

definition create :: "Kind \<Rightarrow> Object \<Rightarrow> Cluster \<Rightarrow> (kerror + Object) \<times> Cluster" where
  "create k obj s = clientCreate k obj s"

definition getOperatorConfig :: "Reconciler \<Rightarrow> Cluster \<Rightarrow> (error + Object) \<times> Cluster" where
  "getOperatorConfig c s =
     (case clientGet ConfigMapKind (OperatorNamespace c) operatorConfigMapName s of
        (Inl e, s1) \<Rightarrow> if \<not> IsNotFound e then (Inl (ApiError e), s1) else (Inr emptyObject, s1)
      | (Inr cm, s1) \<Rightarrow> (Inr cm, s1))"

subsection \<open>The validating webhook\<close>

text \<open>
  The mutate function of \<open>reconcileSubscriptionValidatingWebhook\<close>. \<open>DeepCopyInto\<close>
  allocates a new byte slice for the bundle of the copy, so the bundle read before it is
  not written through. \<open>wh.ClientConfig.Service\<close> is a pointer that the template sets;
  with a template that leaves it nil the last assignment is a nil dereference.
\<close>

definition zeroWebhook :: ValidatingWebhook where
  "zeroWebhook = \<lparr>whName = [], ClientConfig = \<lparr>URL = None, Service = None, CABundle = []\<rparr>,
     NamespaceSelector = None, ObjectSelector = None, whOther = []\<rparr>"

definition webhookMutateFn :: "Reconciler \<Rightarrow> Pkg \<Rightarrow> Object \<Rightarrow> error + Object" where
  "webhookMutateFn c p whConfig0 =
     (let whConfig = whConfig0\<lparr>meta := (meta whConfig0)\<lparr>Annotations :=
                       [''service.beta.openshift.io/inject-cabundle'' \<mapsto> ''true'']\<rparr>\<rparr>;
          webhooks = (if length (Webhooks whConfig) = 0 then [zeroWebhook] else Webhooks whConfig);
          caBundle = (if length (Webhooks whConfig) = 0 then []
                      else CABundle (ClientConfig (Webhooks whConfig ! 0)));
          wh0 = SubscriptionValidatingWebhook p;
          wh1 = wh0\<lparr>whName := Name (meta whConfig)\<rparr>;
          wh2 = wh1\<lparr>NamespaceSelector :=
                  Some \<lparr>MatchLabels = [''kubernetes.io/metadata.name'' \<mapsto> OperatorNamespace c]\<rparr>\<rparr>;
          wh3 = wh2\<lparr>ObjectSelector :=
                  Some \<lparr>MatchLabels = [subscriptionLabelKey \<mapsto> subscriptionLabelValue]\<rparr>\<rparr>;
          wh4 = wh3\<lparr>ClientConfig := (ClientConfig wh3)\<lparr>CABundle := caBundle\<rparr>\<rparr>
      in case Service (ClientConfig wh4) of
           None \<Rightarrow> Inl NilPointerDereference
         | Some svc \<Rightarrow>
             let wh5 = wh4\<lparr>ClientConfig := (ClientConfig wh4)\<lparr>Service :=
                         Some (svc\<lparr>svcNamespace := OperatorNamespace c\<rparr>)\<rparr>\<rparr>
             in Inr (whConfig\<lparr>Webhooks := webhooks[0 := wh5]\<rparr>))"

definition reconcileSubscriptionValidatingWebhook ::
  "Reconciler \<Rightarrow> Pkg \<Rightarrow> Cluster \<Rightarrow> (error + unit) \<times> Cluster" where
  "reconcileSubscriptionValidatingWebhook c p s =
     createOrUpdate ValidatingWebhookConfigurationKind
       (namedObject [] (SubscriptionWebhookName p)) (webhookMutateFn c p) s"

subsection \<open>The label on the operator's subscription\<close>

text \<open>
  Modelled from the spec: \<open>utils.Find\<close> of \<open>pkg/utils\<close>, which is not among the sources:
  the first element of the list that satisfies the predicate, nil when there is none.
\<close>

definition Find :: "'a list \<Rightarrow> ('a \<Rightarrow> bool) \<Rightarrow> 'a option" where
  "Find items f = find f items"

text \<open>
  Modelled from the spec: \<open>utils.AddLabel\<close> of \<open>pkg/utils\<close>, which is not among the
  sources. The specification has the subscription labelled "if not already labeled", with
  an early exit when the fixed key/value pair is present: the label is set and true is
  returned unless the object carries the key with that value already.
\<close>

definition AddLabel :: "Object \<Rightarrow> string \<Rightarrow> string \<Rightarrow> Object \<times> bool" where
  "AddLabel obj k v =
     (if labelsOrEmpty (meta obj) k = Some v then (obj, False)
      else (obj\<lparr>meta := (meta obj)\<lparr>Labels := Some ((labelsOrEmpty (meta obj))(k \<mapsto> v))\<rparr>\<rparr>, True))"

definition labelClientOperatorSubscription :: "Reconciler \<Rightarrow> Cluster \<Rightarrow> (error + unit) \<times> Cluster" where
  "labelClientOperatorSubscription c s =
     (case clientList SubscriptionKind (OperatorNamespace c) s of
        (Inl e, s1) \<Rightarrow> (Inl ListSubscriptionsFailed, s1)
      | (Inr items, s1) \<Rightarrow>
          (case Find items (\<lambda>sub. Package sub = ''ocs-client-operator'') of
             None \<Rightarrow> (Inl SubscriptionNotFound, s1)
           | Some sub \<Rightarrow>
               (case AddLabel sub subscriptionLabelKey subscriptionLabelValue of
                  (sub', added) \<Rightarrow>
                    if added
                    then (case clientUpdate SubscriptionKind sub' s1 of
                            (Inl e, s2) \<Rightarrow> (Inl (ApiError e), s2)
                          | (Inr stored, s2) \<Rightarrow> (Inr (), s2))
                    else (Inr (), s1))))"

subsection \<open>The console plugin\<close>

definition nginxMutateFn :: "Object \<Rightarrow> string \<Rightarrow> Object \<Rightarrow> error + Object" where
  "nginxMutateFn consoleDeployment nginxConf nginxConfigMap =
     (if dataAt nginxConfigMap ''nginx.conf'' \<noteq> nginxConf
      then (case Data nginxConfigMap of
              None \<Rightarrow> Inl NilMapAssignment
            | Some d \<Rightarrow>
                SetControllerReference consoleDeployment
                  (nginxConfigMap\<lparr>Data := Some (d(''nginx.conf'' \<mapsto> nginxConf))\<rparr>))
      else SetControllerReference consoleDeployment nginxConfigMap)"

definition serviceMutateFn :: "Reconciler \<Rightarrow> Pkg \<Rightarrow> Object \<Rightarrow> Object \<Rightarrow> error + Object" where
  "serviceMutateFn c p consoleDeployment consoleService =
     (case SetControllerReference consoleDeployment consoleService of
        Inl e \<Rightarrow> Inl e
      | Inr owned \<Rightarrow> Inr (GetService p (ConsolePort c) (OperatorNamespace c)))"

definition consolePluginMutateFn :: "Reconciler \<Rightarrow> Pkg \<Rightarrow> Object \<Rightarrow> error + Object" where
  "consolePluginMutateFn c p consolePlugin =
     (let resourceVersion = ResourceVersion (meta consolePlugin);
          copied = GetConsolePlugin p (ConsolePort c) (OperatorNamespace c)
      in Inr (copied\<lparr>meta := (meta copied)\<lparr>ResourceVersion := resourceVersion\<rparr>\<rparr>))"

definition ensureConsolePlugin :: "Reconciler \<Rightarrow> Pkg \<Rightarrow> Cluster \<Rightarrow> (error + unit) \<times> Cluster" where
  "ensureConsolePlugin c p s =
     (case clientGet DeploymentKind (OperatorNamespace c) (ConsoleDeploymentName p) s of
        (Inl e, s1) \<Rightarrow> (Inl (ApiError e), s1)
      | (Inr consoleDeployment, s1) \<Rightarrow>
          let nginxConf = GetNginxConf p;
              nginxConfigMap = (namedObject (OperatorNamespace c) (NginxConfigMapName p))
                                 \<lparr>Data := Some [''nginx.conf'' \<mapsto> nginxConf]\<rparr>
          in
          thenDo (createOrUpdate ConfigMapKind nginxConfigMap
                    (nginxMutateFn consoleDeployment nginxConf) s1) (\<lambda>u1 s2.
          thenDo (createOrUpdate ServiceKind (GetService p (ConsolePort c) (OperatorNamespace c))
                    (serviceMutateFn c p consoleDeployment) s2) (\<lambda>u2 s3.
          createOrUpdate ConsolePluginKind (GetConsolePlugin p (ConsolePort c) (OperatorNamespace c))
            (consolePluginMutateFn c p) s3)))"

subsection \<open>The flag that enables the CSI resources\<close>

text \<open>\<open>strconv.ParseBool\<close>: the twelve spellings it accepts; anything else is a syntax error.\<close>

definition ParseBool :: "string \<Rightarrow> error + bool" where
  "ParseBool str =
     (if str \<in> set [''1'', ''t'', ''T'', ''true'', ''TRUE'', ''True''] then Inr True
      else if str \<in> set [''0'', ''f'', ''F'', ''false'', ''FALSE'', ''False''] then Inr False
      else Inl (SyntaxError str))"

definition getDeployCSIConfig :: "Reconciler \<Rightarrow> Cluster \<Rightarrow> (error + bool) \<times> Cluster" where
  "getDeployCSIConfig c s =
     (case clientGet ConfigMapKind (OperatorNamespace c) operatorConfigMapName s of
        (Inl e, s1) \<Rightarrow> (Inl (GetOperatorConfigMapFailed e), s1)
      | (Inr operatorConfig, s1) \<Rightarrow>
          let data = dataOrEmpty operatorConfig in
          (case data deployCSIKey of
             Some v \<Rightarrow>
               (case ParseBool v of
                  Inl e \<Rightarrow> (Inl (ParseBoolFailed v), s1)
                | Inr deployCSI \<Rightarrow> (Inr deployCSI, s1))
           | None \<Rightarrow>
               (case clientGet CustomResourceDefinitionKind [] ''storageclusters.ocs.openshift.io'' s1 of
                  (Inl e, s2) \<Rightarrow>
                    if \<not> IsNotFound e then (Inl (VerifyStorageClusterCRDFailed e), s2)
                    else (Inr True, s2)
                | (Inr storageClusterCRD, s2) \<Rightarrow> (Inr False, s2))))"

subsection \<open>The CSI resources\<close>

text \<open>
  The two statements \<open>c.own(cm)\<close>, \<open>c.create(cm)\<close> that \<open>Reconcile\<close> runs for the monitor
  and for the encryption config map: the object is created, an AlreadyExists error of the
  create is dropped, and there is no update.
\<close>

definition createConfigMapOnce :: "Reconciler \<Rightarrow> Object \<Rightarrow> Cluster \<Rightarrow> (error + unit) \<times> Cluster" where
  "createConfigMapOnce c configMap s =
     (case own c configMap of
        Inl e \<Rightarrow> (Inl e, s)
      | Inr owned \<Rightarrow>
          (case create ConfigMapKind owned s of
             (Inl e, s1) \<Rightarrow> if \<not> IsAlreadyExists e then (Inl (ApiError e), s1) else (Inr (), s1)
           | (Inr stored, s1) \<Rightarrow> (Inr (), s1)))"

definition writeOnceConfigMap :: "Reconciler \<Rightarrow> string \<Rightarrow> Object" where
  "writeOnceConfigMap c n =
     (namedObject (OperatorNamespace c) n)\<lparr>Data := Some [''config.json'' \<mapsto> ''[]'']\<rparr>"

definition sccMutateFn :: "Reconciler \<Rightarrow> Pkg \<Rightarrow> Object \<Rightarrow> error + Object" where
  "sccMutateFn c p scc =
     (let resourceVersion = ResourceVersion (meta scc);
          desired = SetSecurityContextConstraintsDesiredState p scc (OperatorNamespace c)
      in Inr (desired\<lparr>meta := (meta desired)\<lparr>ResourceVersion := resourceVersion\<rparr>\<rparr>))"

definition workloadMutateFn :: "Reconciler \<Rightarrow> (Object \<Rightarrow> Object) \<Rightarrow> Object \<Rightarrow> error + Object" where
  "workloadMutateFn c setDesiredState obj =
     (case own c obj of
        Inl e \<Rightarrow> Inl e
      | Inr owned \<Rightarrow> Inr (setDesiredState owned))"

text \<open>
  Modelled from the spec: \<open>csi.CreateCSIDriver\<close> of \<open>pkg/csi\<close>, which is not among the
  sources. The specification has the two driver descriptors "create-if-absent": the
  descriptor is looked up and created when it is not found; one that exists is left as it
  is.
\<close>

definition CreateCSIDriver :: "Object \<Rightarrow> Cluster \<Rightarrow> (error + unit) \<times> Cluster" where
  "CreateCSIDriver csiDriver s =
     (case clientGet CSIDriverKind (Namespace (meta csiDriver)) (Name (meta csiDriver)) s of
        (Inr existing, s1) \<Rightarrow> (Inr (), s1)
      | (Inl e, s1) \<Rightarrow>
          if \<not> IsNotFound e then (Inl (ApiError e), s1)
          else (case clientCreate CSIDriverKind csiDriver s1 of
                  (Inl e, s2) \<Rightarrow> (Inl (ApiError e), s2)
                | (Inr stored, s2) \<Rightarrow> (Inr (), s2)))"

definition prometheusRuleMutateFn :: "Reconciler \<Rightarrow> Object \<Rightarrow> Object \<Rightarrow> error + Object" where
  "prometheusRuleMutateFn c operatorConfig prometheusRule =
     (case applyLabels (dataAt operatorConfig ''OCS_METRICS_LABELS'') (meta prometheusRule) of
        Inl e \<Rightarrow> Inl e
      | Inr labelled \<Rightarrow> own c (prometheusRule\<lparr>meta := labelled\<rparr>))"

text \<open>The branch \<open>else if deployCSI { ... }\<close> of \<open>Reconcile\<close>.\<close>

definition deployCSIResources :: "Reconciler \<Rightarrow> Pkg \<Rightarrow> Request \<Rightarrow> Cluster \<Rightarrow> (error + unit) \<times> Cluster" where
  "deployCSIResources c p req s =
     (case clientGet ClusterVersionKind (reqNamespace req) (reqName req) s of
        (Inl e, s1) \<Rightarrow> (Inl (ApiError e), s1)
      | (Inr instance, s1) \<Rightarrow>
          (case InitializeSidecars p (DesiredVersion instance) of
             Some e \<Rightarrow> (Inl e, s1)
           | None \<Rightarrow>
               let version = DesiredVersion instance; ns = OperatorNamespace c in
               thenDo (createOrUpdate SecurityContextConstraintsKind (namedObject [] (SCCName p))
                         (sccMutateFn c p) s1) (\<lambda>u s2.
               thenDo (createConfigMapOnce c (writeOnceConfigMap c (MonConfigMapName p)) s2) (\<lambda>u s3.
               thenDo (createConfigMapOnce c (writeOnceConfigMap c (EncryptionConfigMapName p)) s3) (\<lambda>u s4.
               thenDo (createOrUpdate DeploymentKind (namedObject ns (CephFSDeploymentName p))
                         (workloadMutateFn c (SetCephFSDeploymentDesiredState p version)) s4) (\<lambda>u s5.
               thenDo (createOrUpdate DaemonSetKind (namedObject ns (CephFSDaemonSetName p))
                         (workloadMutateFn c (SetCephFSDaemonSetDesiredState p version)) s5) (\<lambda>u s6.
               thenDo (createOrUpdate DeploymentKind (namedObject ns (RBDDeploymentName p))
                         (workloadMutateFn c (SetRBDDeploymentDesiredState p version)) s6) (\<lambda>u s7.
               thenDo (createOrUpdate DaemonSetKind (namedObject ns (RBDDaemonSetName p))
                         (workloadMutateFn c (SetRBDDaemonSetDesiredState p version)) s7) (\<lambda>u s8.
               thenDo (CreateCSIDriver
                         ((CephFSCSIDriver p)\<lparr>meta := (meta (CephFSCSIDriver p))\<lparr>Name := GetCephFSDriverName p\<rparr>\<rparr>)
                         s8) (\<lambda>u s9.
               thenDo (CreateCSIDriver
                         ((RbdCSIDriver p)\<lparr>meta := (meta (RbdCSIDriver p))\<lparr>Name := GetRBDDriverName p\<rparr>\<rparr>)
                         s9) (\<lambda>u s10.
               (case pvcPrometheusRules p of
                  Inl e \<Rightarrow> (Inl e, s10)
                | Inr decoded \<Rightarrow>
                    thenDo (getOperatorConfig c s10) (\<lambda>operatorConfig s11.
                    createOrUpdate PrometheusRuleKind
                      (decoded\<lparr>meta := (meta decoded)\<lparr>Namespace := ns\<rparr>\<rparr>)
                      (prometheusRuleMutateFn c operatorConfig) s11)))))))))))))"

definition Reconcile :: "Reconciler \<Rightarrow> Pkg \<Rightarrow> Request \<Rightarrow> Cluster \<Rightarrow> (error + unit) \<times> Cluster" where
  "Reconcile c p req s =
     thenDo (reconcileSubscriptionValidatingWebhook c p s) (\<lambda>u s1.
     thenDo (labelClientOperatorSubscription c s1) (\<lambda>u s2.
     thenDo (ensureConsolePlugin c p s2) (\<lambda>u s3.
     thenDo (getDeployCSIConfig c s3) (\<lambda>deployCSI s4.
       if deployCSI then deployCSIResources c p req s4 else (Inr (), s4)))))"


subsection \<open>The watches of SetupWithManager\<close>

text \<open>
  A change event of controller-runtime carries the object (create, delete, generic) or the
  old and the new object (update). A predicate made by \<open>predicate.NewPredicateFuncs\<close>
  applies its filter to the object, and to the new object of an update;
  \<open>LabelChangedPredicate\<close> lets an update through when the labels of the old and the new
  object differ for \<open>reflect.DeepEqual\<close> (a nil and an empty map differ) and every other
  event always. \<open>handler.EnqueueRequestsFromMapFunc\<close> maps the object, and for an update
  the old and then the new object, and enqueues every request once.
\<close>

datatype Event =
    CreateEvent Object
  | UpdateEvent Object Object
  | DeleteEvent Object
  | GenericEvent Object

fun NewPredicateFuncs :: "(Object \<Rightarrow> bool) \<Rightarrow> Event \<Rightarrow> bool" where
  "NewPredicateFuncs filt (CreateEvent obj) = filt obj"
| "NewPredicateFuncs filt (UpdateEvent old new) = filt new"
| "NewPredicateFuncs filt (DeleteEvent obj) = filt obj"
| "NewPredicateFuncs filt (GenericEvent obj) = filt obj"

fun LabelChangedPredicate :: "Event \<Rightarrow> bool" where
  "LabelChangedPredicate (UpdateEvent old new) = (Labels (meta old) \<noteq> Labels (meta new))"
| "LabelChangedPredicate e = True"

fun eventObjects :: "Event \<Rightarrow> Object list" where
  "eventObjects (CreateEvent obj) = [obj]"
| "eventObjects (UpdateEvent old new) = [old, new]"
| "eventObjects (DeleteEvent obj) = [obj]"
| "eventObjects (GenericEvent obj) = [obj]"

definition EnqueueRequestsFromMapFunc :: "(Object \<Rightarrow> Request list) \<Rightarrow> Event \<Rightarrow> Request list" where
  "EnqueueRequestsFromMapFunc mapFn e = remdups (concat (map mapFn (eventObjects e)))"

definition configMapPredicates :: "Reconciler \<Rightarrow> (Event \<Rightarrow> bool) list" where
  "configMapPredicates c =
     [NewPredicateFuncs (\<lambda>client.
        let namespace = Namespace (meta client); name = Name (meta client)
        in namespace = OperatorNamespace c \<and> name = operatorConfigMapName)]"

definition enqueueClusterVersionRequest :: "Event \<Rightarrow> Request list" where
  "enqueueClusterVersionRequest =
     EnqueueRequestsFromMapFunc (\<lambda>obj. [\<lparr>reqNamespace = [], reqName = clusterVersionName\<rparr>])"

definition subscriptionPredicates :: "Reconciler \<Rightarrow> (Event \<Rightarrow> bool) list" where
  "subscriptionPredicates c =
     [NewPredicateFuncs (\<lambda>client. Namespace (meta client) = OperatorNamespace c),
      LabelChangedPredicate]"

definition webhookPredicates :: "Pkg \<Rightarrow> (Event \<Rightarrow> bool) list" where
  "webhookPredicates p =
     [NewPredicateFuncs (\<lambda>client. Name (meta client) = SubscriptionWebhookName p)]"

text \<open>
  The four \<open>Watches\<close> of \<open>SetupWithManager\<close>: the handler and the predicates of each
  watched kind (\<open>builder.OnlyMetadata\<close> filters nothing). An event is handed to the handler
  when every predicate of its watch lets it through.
\<close>

definition watches :: "Reconciler \<Rightarrow> Pkg \<Rightarrow> (Kind \<times> (Event \<Rightarrow> Request list) \<times> (Event \<Rightarrow> bool) list) list" where
  "watches c p =
     [(ConfigMapKind, enqueueClusterVersionRequest, configMapPredicates c),
      (CustomResourceDefinitionKind, enqueueClusterVersionRequest, []),
      (SubscriptionKind, enqueueClusterVersionRequest, subscriptionPredicates c),
      (ValidatingWebhookConfigurationKind, enqueueClusterVersionRequest, webhookPredicates p)]"

definition passesFilter :: "Reconciler \<Rightarrow> Pkg \<Rightarrow> Kind \<Rightarrow> Event \<Rightarrow> bool" where
  "passesFilter c p k e =
     (case map_of (watches c p) k of
        None \<Rightarrow> False
      | Some (handler, predicates) \<Rightarrow> list_all (\<lambda>pr. pr e) predicates)"

definition enqueued :: "Reconciler \<Rightarrow> Pkg \<Rightarrow> Kind \<Rightarrow> Event \<Rightarrow> Request list" where
  "enqueued c p k e =
     (case map_of (watches c p) k of
        None \<Rightarrow> []
      | Some (handler, predicates) \<Rightarrow> if list_all (\<lambda>pr. pr e) predicates then handler e else [])"

section \<open>Frame conditions\<close>

text \<open>
  What a step may have done to the cluster. \<open>touchesOnly K s s'\<close>: from \<open>s\<close> to \<open>s'\<close> the
  entries of the store outside the keys \<open>K\<close> are the same, in the same order, and every
  create or update issued in between was for a key of \<open>K\<close>. \<open>keepsExisting k s s'\<close>: an
  object stored under \<open>k\<close> in \<open>s\<close> is stored under \<open>k\<close> unchanged in \<open>s'\<close>, and no update
  for \<open>k\<close> was issued in between.
\<close>

definition writesWithin :: "ObjectKey set \<Rightarrow> Call list \<Rightarrow> bool" where
  "writesWithin K cs = (\<forall>c\<in>set cs. case writtenKey c of None \<Rightarrow> True | Some k \<Rightarrow> k \<in> K)"

definition touchesOnly :: "ObjectKey set \<Rightarrow> Cluster \<Rightarrow> Cluster \<Rightarrow> bool" where
  "touchesOnly K s s' =
     (filter (\<lambda>(key, obj). key \<notin> K) (objects s') = filter (\<lambda>(key, obj). key \<notin> K) (objects s)
      \<and> (\<exists>cs. calls s' = calls s @ cs \<and> writesWithin K cs))"


text \<open>
  The keys of the resources that the CSI branch of \<open>Reconcile\<close> manages: the security
  context constraints, the two write-once config maps, the four workloads, the two CSI
  driver descriptors and the Prometheus rule.
\<close>

definition csiManagedKeys :: "Reconciler \<Rightarrow> Pkg \<Rightarrow> ObjectKey list" where
  "csiManagedKeys c p =
     [(SecurityContextConstraintsKind, [], SCCName p),
      (ConfigMapKind, OperatorNamespace c, MonConfigMapName p),
      (ConfigMapKind, OperatorNamespace c, EncryptionConfigMapName p),
      (DeploymentKind, OperatorNamespace c, CephFSDeploymentName p),
      (DaemonSetKind, OperatorNamespace c, CephFSDaemonSetName p),
      (DeploymentKind, OperatorNamespace c, RBDDeploymentName p),
      (DaemonSetKind, OperatorNamespace c, RBDDaemonSetName p),
      (CSIDriverKind, Namespace (meta (CephFSCSIDriver p)), GetCephFSDriverName p),
      (CSIDriverKind, Namespace (meta (RbdCSIDriver p)), GetRBDDriverName p)]
     @ (case pvcPrometheusRules p of
          Inl e \<Rightarrow> []
        | Inr decoded \<Rightarrow> [(PrometheusRuleKind, OperatorNamespace c, Name (meta decoded))])"

text \<open>
  The keys that the steps before the CSI branch can write: webhook configurations,
  subscriptions, services, console plugins and the nginx config map of the console.
\<close>

definition precheckKeys :: "Reconciler \<Rightarrow> Pkg \<Rightarrow> ObjectKey set" where
  "precheckKeys c p =
     {k. fst k = ValidatingWebhookConfigurationKind \<or> fst k = SubscriptionKind
         \<or> fst k = ServiceKind \<or> fst k = ConsolePluginKind}
     \<union> {(ConfigMapKind, OperatorNamespace c, NginxConfigMapName p)}"

text \<open>
  The subscriptions of a namespace as the store holds them, and whether one of them in the
  operator's namespace is for the package \<open>ocs-client-operator\<close>.
\<close>

definition subscriptionsIn :: "string \<Rightarrow> Cluster \<Rightarrow> Object list" where
  "subscriptionsIn ns s =
     map snd (filter (\<lambda>(key, obj). fst key = SubscriptionKind \<and> fst (snd key) = ns) (objects s))"

definition hasOperatorSubscription :: "Reconciler \<Rightarrow> Cluster \<Rightarrow> bool" where
  "hasOperatorSubscription c s =
     list_ex (\<lambda>sub. Package sub = ''ocs-client-operator'') (subscriptionsIn (OperatorNamespace c) s)"

text \<open>An object with its version token blanked: what two objects that differ in the token only share.\<close>

definition withoutResourceVersion :: "Object \<Rightarrow> Object" where
  "withoutResourceVersion obj = obj\<lparr>meta := (meta obj)\<lparr>ResourceVersion := []\<rparr>\<rparr>"

section \<open>Example inputs\<close>

definition exampleMeta :: ObjectMeta where
  "exampleMeta = \<lparr>Name = ''prometheus-rules'', Namespace = ''ns'', UID = ''u1'', ResourceVersion = ''7'',
     Labels = Some [''old'' \<mapsto> ''label''], Annotations = Map.empty, OwnerReferences = []\<rparr>"


definition exampleReconciler :: Reconciler where
  "exampleReconciler =
     \<lparr>OperatorDeployment = namedObject ''ns'' ''ocs-client-operator-controller-manager'',
      OperatorNamespace = ''ns'', ConsolePort = 9001\<rparr>"

definition exampleWebhookTemplate :: ValidatingWebhook where
  "exampleWebhookTemplate =
     \<lparr>whName = [],
      ClientConfig = \<lparr>URL = None,
        Service = Some \<lparr>svcNamespace = [], svcName = ''webhook-server'', svcOther = ''/validate''\<rparr>,
        CABundle = []\<rparr>,
      NamespaceSelector = None, ObjectSelector = None, whOther = ''rules''\<rparr>"

definition examplePkg :: Pkg where
  "examplePkg =
     \<lparr>SubscriptionWebhookName = ''subscription.ocs.openshift.io'',
      SubscriptionValidatingWebhook = exampleWebhookTemplate,
      MonConfigMapName = ''ceph-csi-configs'',
      EncryptionConfigMapName = ''ceph-csi-kms-config'',
      CephFSCSIDriver = emptyObject\<lparr>Content := ''cephfs-driver''\<rparr>,
      RbdCSIDriver = emptyObject\<lparr>Content := ''rbd-driver''\<rparr>,
      SCCName = ''ceph-csi-scc'',
      CephFSDeploymentName = ''cephfs-ctrlplugin'',
      CephFSDaemonSetName = ''cephfs-nodeplugin'',
      RBDDeploymentName = ''rbd-ctrlplugin'',
      RBDDaemonSetName = ''rbd-nodeplugin'',
      GetCephFSDriverName = ''cephfs.csi.ceph.com'',
      GetRBDDriverName = ''rbd.csi.ceph.com'',
      InitializeSidecars = (\<lambda>version. None),
      SetSecurityContextConstraintsDesiredState =
        (\<lambda>scc ns. (namedObject [] ''ceph-csi-scc'')\<lparr>Content := ''scc for '' @ ns\<rparr>),
      SetCephFSDeploymentDesiredState = (\<lambda>version obj. obj\<lparr>Content := ''cephfs-ctrl '' @ version\<rparr>),
      SetCephFSDaemonSetDesiredState = (\<lambda>version obj. obj\<lparr>Content := ''cephfs-node '' @ version\<rparr>),
      SetRBDDeploymentDesiredState = (\<lambda>version obj. obj\<lparr>Content := ''rbd-ctrl '' @ version\<rparr>),
      SetRBDDaemonSetDesiredState = (\<lambda>version obj. obj\<lparr>Content := ''rbd-node '' @ version\<rparr>),
      pvcPrometheusRules = Inr ((namedObject [] ''prometheus-pvc-rules'')\<lparr>Content := ''alerts''\<rparr>),
      ConsoleDeploymentName = ''console'',
      NginxConfigMapName = ''console-nginx-conf'',
      GetNginxConf = ''server {}'',
      GetService = (\<lambda>port ns. (namedObject ns ''console-service'')\<lparr>Content := ''port''\<rparr>),
      GetConsolePlugin = (\<lambda>port ns. (namedObject [] ''odf-client-console'')\<lparr>Content := ''plugin''\<rparr>)\<rparr>"

definition exampleRequest :: Request where
  "exampleRequest = \<lparr>reqNamespace = [], reqName = ''version''\<rparr>"

definition clusterOf :: "(ObjectKey \<times> Object) list \<Rightarrow> Cluster" where
  "clusterOf objs = \<lparr>objects = objs, faults = [], calls = []\<rparr>"

definition stored :: "Kind \<Rightarrow> Object \<Rightarrow> ObjectKey \<times> Object" where
  "stored k obj = (keyOf k obj, obj)"

definition exampleSubscription :: Object where
  "exampleSubscription = (namedObject ''ns'' ''client-sub'')\<lparr>Package := ''ocs-client-operator''\<rparr>"

definition exampleConsoleDeployment :: Object where
  "exampleConsoleDeployment = namedObject ''ns'' ''console''"

definition exampleClusterVersion :: Object where
  "exampleClusterVersion = (namedObject [] ''version'')\<lparr>DesiredVersion := ''4.16.0''\<rparr>"

definition operatorConfigWith :: "(string \<rightharpoonup> string) option \<Rightarrow> Object" where
  "operatorConfigWith d = (namedObject ''ns'' ''ocs-client-operator-config'')\<lparr>Data := d\<rparr>"

definition editedMonConfigMap :: Object where
  "editedMonConfigMap =
     (namedObject ''ns'' ''ceph-csi-configs'')\<lparr>Data := Some [''config.json'' \<mapsto> ''[{\"clusterID\":\"a\"}]'']\<rparr>"

text \<open>
  A cluster with the operator's subscription, the console deployment, the cluster version,
  a monitor config map that somebody has edited, and an operator config map that switches
  CSI off.
\<close>

definition disabledCluster :: Cluster where
  "disabledCluster =
     clusterOf
       [stored SubscriptionKind exampleSubscription,
        stored DeploymentKind exampleConsoleDeployment,
        stored ClusterVersionKind exampleClusterVersion,
        stored ConfigMapKind editedMonConfigMap,
        stored ConfigMapKind (operatorConfigWith (Some [''DEPLOY_CSI'' \<mapsto> ''false'']))]"

text \<open>The same cluster without the operator config map and without the StorageCluster CRD.\<close>

definition bootstrapCluster :: Cluster where
  "bootstrapCluster =
     clusterOf
       [stored SubscriptionKind exampleSubscription,
        stored DeploymentKind exampleConsoleDeployment,
        stored ClusterVersionKind exampleClusterVersion]"

text \<open>Clusters for the flag: with the StorageCluster CRD and no flag, with an operator config map
  without data, and with a flag that is no boolean.\<close>

definition crdCluster :: Cluster where
  "crdCluster =
     clusterOf
       [stored ConfigMapKind (operatorConfigWith (Some [''OCS_METRICS_LABELS'' \<mapsto> ''team: storage''])),
        stored CustomResourceDefinitionKind (namedObject [] ''storageclusters.ocs.openshift.io'')]"

definition noFlagCluster :: Cluster where
  "noFlagCluster = clusterOf [stored ConfigMapKind (operatorConfigWith None)]"

definition badFlagCluster :: Cluster where
  "badFlagCluster = clusterOf [stored ConfigMapKind (operatorConfigWith (Some [''DEPLOY_CSI'' \<mapsto> ''yes'']))]"

text \<open>A cluster after the controller has read the given keys.\<close>

definition afterGets :: "Cluster \<Rightarrow> ObjectKey list \<Rightarrow> Cluster" where
  "afterGets s ks = s\<lparr>calls := calls s @ map GetCall ks\<rparr>"

definition operatorConfigKey :: ObjectKey where
  "operatorConfigKey = (ConfigMapKind, ''ns'', ''ocs-client-operator-config'')"

definition storageClusterCRDKey :: ObjectKey where
  "storageClusterCRDKey = (CustomResourceDefinitionKind, [], ''storageclusters.ocs.openshift.io'')"

text \<open>A webhook configuration whose certificate bundle has been injected.\<close>

definition injectedWebhookConfig :: Object where
  "injectedWebhookConfig =
     (namedObject [] ''subscription.ocs.openshift.io'')
       \<lparr>Webhooks := [zeroWebhook\<lparr>whName := ''stale'',
                       ClientConfig := \<lparr>URL = None, Service = None, CABundle = [0x30, 0x82, 0x01]\<rparr>\<rparr>]\<rparr>"


text \<open>
  A cluster whose only subscription for the package \<open>ocs-client-operator\<close> is in another
  namespace, and a subscription that carries the label already.
\<close>

definition noSubscriptionCluster :: Cluster where
  "noSubscriptionCluster =
     clusterOf
       [stored SubscriptionKind ((namedObject ''ns'' ''other-sub'')\<lparr>Package := ''odf-operator''\<rparr>),
        stored SubscriptionKind ((namedObject ''elsewhere'' ''client-sub'')\<lparr>Package := ''ocs-client-operator''\<rparr>),
        stored DeploymentKind exampleConsoleDeployment]"

definition labelledSubscription :: Object where
  "labelledSubscription =
     exampleSubscription\<lparr>meta := (meta exampleSubscription)\<lparr>Labels :=
       Some [''managed-by'' \<mapsto> ''webhook.subscription.ocs.openshift.io'']\<rparr>\<rparr>"

text \<open>
  The request for the cluster version, a subscription whose label map is empty but not nil,
  and the StorageCluster CRD.
\<close>

definition versionRequest :: Request where
  "versionRequest = \<lparr>reqNamespace = [], reqName = ''version''\<rparr>"

definition emptyLabelSubscription :: Object where
  "emptyLabelSubscription =
     exampleSubscription\<lparr>meta := (meta exampleSubscription)\<lparr>Labels := Some Map.empty\<rparr>\<rparr>"

definition exampleCRD :: Object where
  "exampleCRD = namedObject [] ''storageclusters.ocs.openshift.io''"

lemmas example_defs = exampleReconciler_def examplePkg_def exampleWebhookTemplate_def
  exampleRequest_def clusterOf_def stored_def exampleSubscription_def
  exampleConsoleDeployment_def exampleClusterVersion_def operatorConfigWith_def
  editedMonConfigMap_def disabledCluster_def bootstrapCluster_def namedObject_def
  emptyObject_def emptyMeta_def keyOf_def
lemmas client_defs = clientGet_def clientList_def clientCreate_def clientUpdate_def issue_def
  CreateOrUpdate_def createOrUpdate_def mutate_def DeepEqual_def IsNotFound_def
  IsAlreadyExists_def thenDo_def SetControllerReference_def GetControllerOf_def
  referSameObject_def ParseGroup_def nextVersion_def semanticForm_def nilIfEmpty_def labelsOrEmpty_def
lemmas precheck_defs = reconcileSubscriptionValidatingWebhook_def webhookMutateFn_def
  zeroWebhook_def labelClientOperatorSubscription_def Find_def AddLabel_def
  subscriptionLabelKey_def subscriptionLabelValue_def ensureConsolePlugin_def
  nginxMutateFn_def serviceMutateFn_def consolePluginMutateFn_def dataAt_def
  getDeployCSIConfig_def dataOrEmpty_def deployCSIKey_def operatorConfigMapName_def
  ParseBool_def

lemmas watch_defs = passesFilter_def enqueued_def watches_def enqueueClusterVersionRequest_def
  EnqueueRequestsFromMapFunc_def clusterVersionName_def configMapPredicates_def
  subscriptionPredicates_def webhookPredicates_def operatorConfigMapName_def versionRequest_def

section \<open>The label parser: what it computes and when it panics\<close>

lemma applyLabels_loop_wellformed:
  "list_all hasColon (filter (\<lambda>l. l \<noteq> []) ls) \<Longrightarrow>
   applyLabels_loop ls m =
     Inr (m ++ map_of (rev (map (\<lambda>line. (lineKey line, lineValue line)) (filter (\<lambda>l. l \<noteq> []) ls))))"
proof (induction ls arbitrary: m)
  case Nil
  then show ?case by simp
next
  case (Cons l ls)
  show ?case
  proof (cases "l = []")
    case True
    with Cons show ?thesis by simp
  next
    case False
    with Cons.prems have r: "list_all hasColon (filter (\<lambda>l. l \<noteq> []) ls)"
      by simp
    from False Cons.prems have c: "CHR '':'' \<in> set l"
      by (simp add: hasColon_def)
    let ?k = "lineKey l" and ?v = "lineValue l"
    let ?M = "map_of (rev (map (\<lambda>line. (lineKey line, lineValue line)) (filter (\<lambda>l. l \<noteq> []) ls)))"
    have step: "applyLabels_loop (l # ls) m = applyLabels_loop ls (m(?k \<mapsto> ?v))"
      using False c by (simp add: SplitN2_def Let_def lineKey_def lineValue_def drop_Suc)
    have e: "(m(?k \<mapsto> ?v)) ++ ?M = m ++ ([?k \<mapsto> ?v] ++ ?M)"
      by (rule ext) (simp add: map_add_def split: option.splits)
    have f: "map_of (rev (map (\<lambda>line. (lineKey line, lineValue line)) (filter (\<lambda>l. l \<noteq> []) (l # ls)))) = [?k \<mapsto> ?v] ++ ?M"
      using False by simp
    show ?thesis unfolding step Cons.IH[OF r] e f ..
  qed
qed

lemma applyLabels_loop_malformed:
  "\<not> list_all hasColon (filter (\<lambda>l. l \<noteq> []) ls) \<Longrightarrow>
   applyLabels_loop ls m = Inl (IndexOutOfRange 1 1)"
proof (induction ls arbitrary: m)
  case Nil
  then show ?case by simp
next
  case (Cons l ls)
  show ?case
  proof (cases "l = []")
    case True
    with Cons show ?thesis by simp
  next
    case False
    show ?thesis
    proof (cases "hasColon l")
      case True
      with False Cons.prems have "\<not> list_all hasColon (filter (\<lambda>l. l \<noteq> []) ls)"
        by simp
      from Cons.IH[OF this] False True show ?thesis
        by (simp add: SplitN2_def Let_def hasColon_def)
    next
      case no: False
      with False show ?thesis
        by (simp add: SplitN2_def Let_def hasColon_def)
    qed
  qed
qed

lemma applyLabels_wellformed:
  "wellFormedLabels label \<Longrightarrow> applyLabels label t = Inr (t\<lparr>Labels := Some (parsedLabels label)\<rparr>)"
  unfolding wellFormedLabels_def labelLines_def applyLabels_def parsedLabels_def
  by (simp add: applyLabels_loop_wellformed)

lemma applyLabels_malformed:
  "\<not> wellFormedLabels label \<Longrightarrow> applyLabels label t = Inl (IndexOutOfRange 1 1)"
  unfolding wellFormedLabels_def labelLines_def applyLabels_def
  by (simp add: applyLabels_loop_malformed)

lemma TrimSpace_examples:
  "TrimSpace ''team'' = ''team''" "TrimSpace '' storage'' = ''storage''"
  "TrimSpace ''env'' = ''env''" "TrimSpace ''  prod'' = ''prod''"
  "TrimSpace ''a'' = ''a''" "TrimSpace '' b '' = ''b''"
  by code_simp+

lemma Split_example:
  "Split ''team: storage\<newline>env:  prod\<newline>\<newline>'' (CHR 0x0A) = [''team: storage'', ''env:  prod'', [], []]"
  by code_simp

text \<open>
  C5. \<open>applyLabels\<close> cuts its input at the line feeds, skips the empty lines, cuts every
  other line at its first colon, trims the white space around the key and around the value,
  and stores the resulting map in the labels of the object (a later line overwriting an
  earlier one with the same key): on every input whose non-empty lines all have a colon it
  returns the object with exactly the labels the specification's reading of the text
  gives. The input \<open>"team: storage\nenv:  prod\n\n"\<close> gives exactly the two labels
  team = storage and env = prod.
\<close>

theorem applyLabels_parses_labels:
  "applyLabels ''team: storage\<newline>env:  prod\<newline>\<newline>'' t =
     Inr (t\<lparr>Labels := Some [''team'' \<mapsto> ''storage'', ''env'' \<mapsto> ''prod'']\<rparr>)
   \<and> (wellFormedLabels label \<longrightarrow> applyLabels label t = Inr (t\<lparr>Labels := Some (parsedLabels label)\<rparr>))"
proof
  show "applyLabels ''team: storage\<newline>env:  prod\<newline>\<newline>'' t =
     Inr (t\<lparr>Labels := Some [''team'' \<mapsto> ''storage'', ''env'' \<mapsto> ''prod'']\<rparr>)"
    unfolding applyLabels_def Split_example
    by (simp add: SplitN2_def TrimSpace_examples)
  show "wellFormedLabels label \<longrightarrow> applyLabels label t = Inr (t\<lparr>Labels := Some (parsedLabels label)\<rparr>)"
    by (simp add: applyLabels_wellformed)
qed

lemma wellFormed_example: "wellFormedLabels ''a: b \<newline>''"
  by code_simp

lemma parsedLabels_example: "parsedLabels ''a: b \<newline>'' = [''a'' \<mapsto> ''b'']"
proof -
  have "labelLines ''a: b \<newline>'' = [''a: b '']"
    by code_simp
  then show ?thesis
    by (simp add: parsedLabels_def lineKey_def lineValue_def TrimSpace_examples)
qed

theorem applyLabels_parses_labels_witness:
  "wellFormedLabels ''a: b \<newline>''
   \<and> applyLabels ''a: b \<newline>'' exampleMeta = Inr (exampleMeta\<lparr>Labels := Some [''a'' \<mapsto> ''b'']\<rparr>)"
  using applyLabels_parses_labels [of exampleMeta "''a: b \<newline>''"]
  by (simp add: wellFormed_example parsedLabels_example)

text \<open>
  C6. On every input in which each non-empty line has at least one colon, \<open>applyLabels\<close>
  completes normally: every read of \<open>parts[1]\<close> is in bounds. On every other input, and so
  on the input \<open>"novalue"\<close>, the read of \<open>parts[1]\<close> at the first non-empty line without
  a colon is out of bounds (index 1 of a slice of length 1) and the function panics.
\<close>

theorem applyLabels_safe_iff_colons:
  "(wellFormedLabels label \<longrightarrow> (\<exists>t'. applyLabels label t = Inr t'))
   \<and> (\<not> wellFormedLabels label \<longrightarrow> applyLabels label t = Inl (IndexOutOfRange 1 1))
   \<and> \<not> wellFormedLabels ''novalue''
   \<and> applyLabels ''novalue'' t = Inl (IndexOutOfRange 1 1)"
proof -
  have bad: "\<not> wellFormedLabels ''novalue''"
    by code_simp
  show ?thesis
    using bad by (simp add: applyLabels_wellformed applyLabels_malformed)
qed

theorem applyLabels_safe_iff_colons_witness:
  "wellFormedLabels ''team: storage\<newline>env:  prod\<newline>\<newline>''
   \<and> (\<exists>t'. applyLabels ''team: storage\<newline>env:  prod\<newline>\<newline>'' exampleMeta = Inr t')
   \<and> \<not> wellFormedLabels ''team: storage\<newline>env\<newline>''
   \<and> applyLabels ''team: storage\<newline>env\<newline>'' exampleMeta = Inl (IndexOutOfRange 1 1)"
proof -
  have good: "wellFormedLabels ''team: storage\<newline>env:  prod\<newline>\<newline>''"
    by code_simp
  have bad: "\<not> wellFormedLabels ''team: storage\<newline>env\<newline>''"
    by code_simp
  show ?thesis
    using good bad
      applyLabels_safe_iff_colons [of "''team: storage\<newline>env:  prod\<newline>\<newline>''" exampleMeta]
      applyLabels_safe_iff_colons [of "''team: storage\<newline>env\<newline>''" exampleMeta]
    by simp
qed

section \<open>What each step can touch\<close>

text \<open>
  The calls of the client first: a read changes nothing, and a create or an update changes
  the store under its own key only. \<open>CreateOrUpdate\<close> writes under the key of the object
  it was given, since \<open>mutate\<close> refuses a change of the name or the namespace.
\<close>

lemma touchesOnly_refl: "touchesOnly K s s"
  by (simp add: touchesOnly_def writesWithin_def)

lemma touchesOnly_trans:
  assumes "touchesOnly K s s1" "touchesOnly K s1 s2"
  shows "touchesOnly K s s2"
  using assms unfolding touchesOnly_def writesWithin_def by auto

lemma update_filter_outside:
  "k \<in> K \<Longrightarrow> filter (\<lambda>(key, obj). key \<notin> K) (AList.update k v al) = filter (\<lambda>(key, obj). key \<notin> K) al"
  by (induction al) auto

lemma issue_effect:
  "issue c s = (r, s') \<Longrightarrow> objects s' = objects s \<and> calls s' = calls s @ [c]"
  by (auto simp: issue_def split: list.splits)

lemma clientGet_touches: "clientGet k ns n s = (r, s') \<Longrightarrow> touchesOnly K s s'"
  by (auto simp: clientGet_def touchesOnly_def writesWithin_def dest!: issue_effect split: prod.splits option.splits)

lemma clientList_touches: "clientList k ns s = (r, s') \<Longrightarrow> touchesOnly K s s'"
  by (auto simp: clientList_def touchesOnly_def writesWithin_def dest!: issue_effect split: prod.splits option.splits)

lemma clientCreate_touches: "clientCreate k obj s = (r, s') \<Longrightarrow> keyOf k obj \<in> K \<Longrightarrow> touchesOnly K s s'"
  by (auto simp: clientCreate_def touchesOnly_def writesWithin_def Let_def update_filter_outside dest!: issue_effect split: prod.splits option.splits)

lemma clientUpdate_touches: "clientUpdate k obj s = (r, s') \<Longrightarrow> keyOf k obj \<in> K \<Longrightarrow> touchesOnly K s s'"
  by (auto simp: clientUpdate_def touchesOnly_def writesWithin_def Let_def update_filter_outside dest!: issue_effect split: prod.splits option.splits if_splits)

lemma mutate_key: "mutate f key obj = Inr obj' \<Longrightarrow> (Namespace (meta obj'), Name (meta obj')) = key"
  by (auto simp: mutate_def split: sum.splits if_splits)

lemma CreateOrUpdate_touches:
  assumes "CreateOrUpdate k obj f s = (r, s')" "keyOf k obj \<in> K"
  shows "touchesOnly K s s'"
proof -
  have key: "mutate f (Namespace (meta obj), Name (meta obj)) x = Inr obj1 \<Longrightarrow> keyOf k obj1 \<in> K" for x obj1
    using assms(2) by (auto simp: keyOf_def dest!: mutate_key)
  show ?thesis
    using assms(1)
    by (auto simp: CreateOrUpdate_def Let_def split: prod.splits sum.splits if_splits
        intro: touchesOnly_trans clientGet_touches clientCreate_touches clientUpdate_touches key)
qed

lemma thenDo_cases:
  assumes "thenDo r f = (x, s')"
  obtains (failed) e where "r = (Inl e, s')" "x = Inl e"
        | (continued) y s1 where "r = (Inr y, s1)" "f y s1 = (x, s')"
  using assms by (auto simp: thenDo_def split: prod.splits sum.splits)

lemma createOrUpdate_touches:
  "createOrUpdate k obj f s = (r, s') \<Longrightarrow> keyOf k obj \<in> K \<Longrightarrow> touchesOnly K s s'"
  by (auto simp: createOrUpdate_def split: prod.splits sum.splits dest: CreateOrUpdate_touches)

lemma webhook_touches:
  "reconcileSubscriptionValidatingWebhook c p s = (r, s') \<Longrightarrow>
   (ValidatingWebhookConfigurationKind, [], SubscriptionWebhookName p) \<in> K \<Longrightarrow> touchesOnly K s s'"
  unfolding reconcileSubscriptionValidatingWebhook_def
  by (erule createOrUpdate_touches) (auto simp: keyOf_def namedObject_def emptyMeta_def)

lemma label_touches:
  "labelClientOperatorSubscription c s = (r, s') \<Longrightarrow> {k. fst k = SubscriptionKind} \<subseteq> K \<Longrightarrow> touchesOnly K s s'"
proof -
  assume a: "labelClientOperatorSubscription c s = (r, s')" and b: "{k. fst k = SubscriptionKind} \<subseteq> K"
  have sub: "keyOf SubscriptionKind x \<in> K" for x
    using b by (auto simp: keyOf_def)
  show ?thesis
    using a unfolding labelClientOperatorSubscription_def
    by (auto split: prod.splits sum.splits option.splits if_splits
        intro: clientList_touches touchesOnly_trans[OF clientList_touches clientUpdate_touches] sub)
qed

lemma console_touches:
  assumes "ensureConsolePlugin c p s = (r, s')"
    "(ConfigMapKind, OperatorNamespace c, NginxConfigMapName p) \<in> K"
    "{k. fst k = ServiceKind} \<subseteq> K" "{k. fst k = ConsolePluginKind} \<subseteq> K"
  shows "touchesOnly K s s'"
proof -
  have n: "keyOf ConfigMapKind ((namedObject (OperatorNamespace c) (NginxConfigMapName p))\<lparr>Data := d\<rparr>) \<in> K" for d
    using assms(2) by (simp add: keyOf_def namedObject_def emptyMeta_def)
  have sv: "keyOf ServiceKind x \<in> K" and pl: "keyOf ConsolePluginKind x \<in> K" for x
    using assms(3,4) by (auto simp: keyOf_def)
  show ?thesis
    using assms(1) unfolding ensureConsolePlugin_def Let_def
    apply (simp split: prod.splits sum.splits)
     apply (auto intro: clientGet_touches)[1]
    apply (erule thenDo_cases)
     apply (blast intro: touchesOnly_trans clientGet_touches createOrUpdate_touches n)
    apply (erule thenDo_cases)
     apply (blast intro: touchesOnly_trans clientGet_touches createOrUpdate_touches n sv)
    apply (blast intro: touchesOnly_trans clientGet_touches createOrUpdate_touches n sv pl)
    done
qed

lemma flag_touches: "getDeployCSIConfig c s = (r, s') \<Longrightarrow> touchesOnly K s s'"
  unfolding getDeployCSIConfig_def Let_def
  by (auto split: prod.splits sum.splits option.splits if_splits
      intro: clientGet_touches touchesOnly_trans[OF clientGet_touches clientGet_touches])

lemma map_of_filter_outside:
  "k \<notin> K \<Longrightarrow> map_of (filter (\<lambda>(key, obj). key \<notin> K) al) k = map_of al k"
  by (induction al) auto

lemma touchesOnly_lookup:
  assumes "touchesOnly K s s'" "k \<notin> K"
  shows "map_of (objects s') k = map_of (objects s) k"
proof -
  have "map_of (objects s') k = map_of (filter (\<lambda>(key, obj). key \<notin> K) (objects s')) k"
    using assms(2) by (simp add: map_of_filter_outside)
  also have "\<dots> = map_of (filter (\<lambda>(key, obj). key \<notin> K) (objects s)) k"
    using assms(1) by (simp add: touchesOnly_def)
  also have "\<dots> = map_of (objects s) k"
    using assms(2) by (simp add: map_of_filter_outside)
  finally show ?thesis .
qed

lemma precheck_touches:
  assumes w: "reconcileSubscriptionValidatingWebhook c p s = (r1, s1)"
      and l: "labelClientOperatorSubscription c s1 = (r2, s2)"
      and e: "ensureConsolePlugin c p s2 = (r3, s3)"
      and f: "getDeployCSIConfig c s3 = (r4, s4)"
  shows "touchesOnly (precheckKeys c p) s s4"
proof -
  have "touchesOnly (precheckKeys c p) s s1"
    using w by (rule webhook_touches) (simp add: precheckKeys_def)
  moreover have "touchesOnly (precheckKeys c p) s1 s2"
    using l by (rule label_touches) (auto simp: precheckKeys_def)
  moreover have "touchesOnly (precheckKeys c p) s2 s3"
    using e by (rule console_touches) (auto simp: precheckKeys_def)
  moreover have "touchesOnly (precheckKeys c p) s3 s4"
    using f by (rule flag_touches)
  ultimately show ?thesis
    by (blast intro: touchesOnly_trans)
qed

lemma csiManaged_outside_precheck:
  assumes "NginxConfigMapName p \<noteq> MonConfigMapName p" "NginxConfigMapName p \<noteq> EncryptionConfigMapName p"
    "k \<in> set (csiManagedKeys c p)"
  shows "k \<notin> precheckKeys c p"
  using assms by (auto simp: csiManagedKeys_def precheckKeys_def split: sum.splits)


















text \<open>The labelling step, and the subscriptions the webhook step leaves alone.\<close>

lemma find_None_list_ex: "find P xs = None \<longleftrightarrow> \<not> list_ex P xs"
  by (induction xs) auto

lemma label_without_subscription:
  assumes "\<not> hasOperatorSubscription c s"
  shows "\<exists>e. labelClientOperatorSubscription c s =
            (Inl e, s\<lparr>faults := tl (faults s), calls := calls s @ [ListCall SubscriptionKind (OperatorNamespace c)]\<rparr>)"
proof (cases "faults s")
  case Nil
  have "s\<lparr>calls := calls s @ [ListCall SubscriptionKind (OperatorNamespace c)]\<rparr>
        = s\<lparr>faults := tl (faults s), calls := calls s @ [ListCall SubscriptionKind (OperatorNamespace c)]\<rparr>"
    using Nil by simp
  then show ?thesis
    using assms Nil
    by (simp add: labelClientOperatorSubscription_def clientList_def issue_def Find_def
        hasOperatorSubscription_def subscriptionsIn_def find_None_list_ex[THEN iffD2])
next
  case (Cons f fs)
  then show ?thesis
    using assms
    by (cases f) (simp_all add: labelClientOperatorSubscription_def clientList_def issue_def Find_def
        hasOperatorSubscription_def subscriptionsIn_def find_None_list_ex[THEN iffD2])
qed

lemma filter_key_disjoint:
  assumes "\<And>k. Q k \<Longrightarrow> k \<notin> K"
  shows "filter (\<lambda>(key, obj). Q key) al = filter (\<lambda>(key, obj). Q key) (filter (\<lambda>(key, obj). key \<notin> K) al)"
  using assms by (induction al) auto

lemma touchesOnly_subscriptions:
  assumes "touchesOnly K s s'" "\<And>k. fst k = SubscriptionKind \<Longrightarrow> k \<notin> K"
  shows "subscriptionsIn ns s' = subscriptionsIn ns s"
proof -
  let ?Q = "\<lambda>key :: ObjectKey. fst key = SubscriptionKind \<and> fst (snd key) = ns"
  have "filter (\<lambda>(key, obj). ?Q key) (objects s') = filter (\<lambda>(key, obj). ?Q key) (filter (\<lambda>(key, obj). key \<notin> K) (objects s'))"
    by (rule filter_key_disjoint) (simp add: assms(2))
  also have "\<dots> = filter (\<lambda>(key, obj). ?Q key) (filter (\<lambda>(key, obj). key \<notin> K) (objects s))"
    using assms(1) by (simp add: touchesOnly_def)
  also have "\<dots> = filter (\<lambda>(key, obj). ?Q key) (objects s)"
    by (rule filter_key_disjoint[symmetric]) (simp add: assms(2))
  finally show ?thesis by (simp add: subscriptionsIn_def)
qed

lemma webhook_keeps_subscriptions:
  assumes "reconcileSubscriptionValidatingWebhook c p s = (r, s1)"
  shows "hasOperatorSubscription c s1 = hasOperatorSubscription c s"
proof -
  have "touchesOnly {(ValidatingWebhookConfigurationKind, [], SubscriptionWebhookName p)} s s1"
    using assms by (rule webhook_touches) simp
  then have "subscriptionsIn (OperatorNamespace c) s1 = subscriptionsIn (OperatorNamespace c) s"
    by (rule touchesOnly_subscriptions) auto
  then show ?thesis by (simp add: hasOperatorSubscription_def)
qed

lemma clientUpdate_calls:
  "clientUpdate k obj s = (r, s') \<Longrightarrow> calls s' = calls s @ [UpdateCall (keyOf k obj)]"
  by (auto simp: clientUpdate_def Let_def split: prod.splits option.splits if_splits dest!: issue_effect)

lemma label_calls:
  assumes "clientList SubscriptionKind (OperatorNamespace c) s = (Inr items, s1)"
      and "Find items (\<lambda>sub. Package sub = ''ocs-client-operator'') = Some sub"
  shows "calls (snd (labelClientOperatorSubscription c s)) =
           calls s1 @ (if labelsOrEmpty (meta sub) subscriptionLabelKey = Some subscriptionLabelValue then []
                       else [UpdateCall (keyOf SubscriptionKind sub)])"
proof (cases "labelsOrEmpty (meta sub) subscriptionLabelKey = Some subscriptionLabelValue")
  case True
  with assms show ?thesis
    by (simp add: labelClientOperatorSubscription_def AddLabel_def)
next
  case False
  let ?sub' = "sub\<lparr>meta := (meta sub)\<lparr>Labels := Some ((labelsOrEmpty (meta sub))(subscriptionLabelKey \<mapsto> subscriptionLabelValue))\<rparr>\<rparr>"
  obtain r s2 where u: "clientUpdate SubscriptionKind ?sub' s1 = (r, s2)" by force
  have "calls s2 = calls s1 @ [UpdateCall (keyOf SubscriptionKind sub)]"
    using clientUpdate_calls[OF u] by (simp add: keyOf_def)
  with assms False u show ?thesis
    by (cases r) (simp_all add: labelClientOperatorSubscription_def AddLabel_def)
qed

text \<open>What \<open>CreateOrUpdate\<close> leaves under the key of an object that exists.\<close>

lemma clientCreate_existing:
  "clientCreate k obj s = (r, s') \<Longrightarrow> map_of (objects s) key = Some existing \<Longrightarrow>
   map_of (objects s') key = Some existing"
  by (auto simp: clientCreate_def Let_def update_conv' dest!: issue_effect split: prod.splits option.splits)

lemma clientGet_objects: "clientGet k ns n s = (r, s') \<Longrightarrow> objects s' = objects s"
  by (auto simp: clientGet_def dest!: issue_effect split: prod.splits option.splits)

lemma clientGet_found:
  "clientGet k ns n s = (Inr obj, s') \<Longrightarrow> map_of (objects s) (k, ns, n) = Some obj"
  by (auto simp: clientGet_def dest!: issue_effect split: prod.splits option.splits)

lemma clientUpdate_stored:
  "clientUpdate k obj s = (r, s') \<Longrightarrow> map_of (objects s) (keyOf k obj) = Some existing \<Longrightarrow>
   map_of (objects s') (keyOf k obj) = Some existing
   \<or> map_of (objects s') (keyOf k obj) =
        Some (obj\<lparr>meta := (meta obj)\<lparr>ResourceVersion := nextVersion (ResourceVersion (meta existing))\<rparr>\<rparr>)"
  by (auto simp: clientUpdate_def Let_def update_conv' dest!: issue_effect split: prod.splits option.splits if_splits)

lemma CreateOrUpdate_stored:
  assumes "CreateOrUpdate k obj f s = (r, s')"
      and "map_of (objects s) (keyOf k obj) = Some existing"
  shows "map_of (objects s') (keyOf k obj) = Some existing
       \<or> (\<exists>obj1. f existing = Inr obj1
            \<and> map_of (objects s') (keyOf k obj) =
                Some (obj1\<lparr>meta := (meta obj1)\<lparr>ResourceVersion := nextVersion (ResourceVersion (meta existing))\<rparr>\<rparr>))"
proof -
  obtain g s1 where g: "clientGet k (Namespace (meta obj)) (Name (meta obj)) s = (g, s1)" by force
  have o1: "objects s1 = objects s" using g by (rule clientGet_objects)
  show ?thesis
  proof (cases g)
    case (Inl e)
    show ?thesis
    proof (cases "mutate f (Namespace (meta obj), Name (meta obj)) obj")
      case (Inl e')
      with \<open>g = Inl e\<close> g assms o1 show ?thesis
        by (auto simp: CreateOrUpdate_def Let_def split: if_splits)
    next
      case (Inr obj1)
      obtain cr s2 where cr: "clientCreate k obj1 s1 = (cr, s2)" by force
      have "map_of (objects s2) (keyOf k obj) = Some existing"
        using cr assms(2) o1 by (auto intro: clientCreate_existing)
      with Inr \<open>g = Inl e\<close> g assms o1 cr show ?thesis
        by (auto simp: CreateOrUpdate_def Let_def split: if_splits sum.splits)
    qed
  next
    case (Inr found)
    have f: "found = existing"
      using g Inr assms(2) by (auto dest!: clientGet_found simp: keyOf_def)
    show ?thesis
    proof (cases "mutate f (Namespace (meta obj), Name (meta obj)) existing")
      case (Inl e')
      with Inr f g assms o1 show ?thesis
        by (auto simp: CreateOrUpdate_def Let_def)
    next
      case m: (Inr obj1)
      then have fe: "f existing = Inr obj1" and k1: "keyOf k obj1 = keyOf k obj"
        by (auto simp: mutate_def keyOf_def split: sum.splits if_splits)
      obtain ur s2 where u: "clientUpdate k obj1 s1 = (ur, s2)" by force
      note clientUpdate_stored[OF u, unfolded k1 o1, OF assms(2)]
      with Inr f g assms o1 m u fe show ?thesis
        by (auto simp: CreateOrUpdate_def Let_def split: if_splits sum.splits)
    qed
  qed
qed

lemma webhookMutateFn_bundle:
  assumes "webhookMutateFn c p whConfig = Inr whConfig'" "Webhooks whConfig \<noteq> []"
  shows "Webhooks whConfig' \<noteq> []
       \<and> CABundle (ClientConfig (hd (Webhooks whConfig'))) = CABundle (ClientConfig (hd (Webhooks whConfig)))"
  using assms
  by (cases "Webhooks whConfig")
     (auto simp: webhookMutateFn_def Let_def split: option.splits)

lemma webhook_step_keeps_stored_bundle:
  assumes "map_of (objects s) (ValidatingWebhookConfigurationKind, [], SubscriptionWebhookName p) = Some whConfig"
      and "Webhooks whConfig \<noteq> []"
  shows "\<exists>whConfig'.
           map_of (objects (snd (reconcileSubscriptionValidatingWebhook c p s)))
             (ValidatingWebhookConfigurationKind, [], SubscriptionWebhookName p) = Some whConfig'
         \<and> Webhooks whConfig' \<noteq> []
         \<and> CABundle (ClientConfig (hd (Webhooks whConfig'))) = CABundle (ClientConfig (hd (Webhooks whConfig)))"
proof -
  let ?obj = "namedObject [] (SubscriptionWebhookName p)"
  have k: "keyOf ValidatingWebhookConfigurationKind ?obj
             = (ValidatingWebhookConfigurationKind, [], SubscriptionWebhookName p)"
    by (simp add: keyOf_def namedObject_def emptyMeta_def)
  obtain r s' where c: "CreateOrUpdate ValidatingWebhookConfigurationKind ?obj (webhookMutateFn c p) s = (r, s')"
    by force
  have s': "snd (reconcileSubscriptionValidatingWebhook c p s) = s'"
    using c by (simp add: reconcileSubscriptionValidatingWebhook_def createOrUpdate_def split: sum.splits)
  from CreateOrUpdate_stored[OF c, unfolded k, OF assms(1)]
  show ?thesis
    unfolding s' using assms(2) by (auto dest: webhookMutateFn_bundle)
qed

section \<open>The claims about the controller\<close>

text \<open>
  C1. \<open>getDeployCSIConfig\<close>, once the operator config map has been read: when the key
  \<open>DEPLOY_CSI\<close> is present its value goes through \<open>strconv.ParseBool\<close>; a boolean is the
  result, and a value that is no boolean is an error (Go returns false with it). When the
  key is absent the CRD \<open>storageclusters.ocs.openshift.io\<close> is probed: not found gives
  true, found gives false, and any other failure of the probe is returned as an error.
\<close>

theorem getDeployCSIConfig_resolves_flag:
  assumes "clientGet ConfigMapKind (OperatorNamespace c) operatorConfigMapName s = (Inr operatorConfig, s1)"
  shows "(\<forall>v. dataOrEmpty operatorConfig deployCSIKey = Some v \<longrightarrow>
            (\<forall>b. ParseBool v = Inr b \<longrightarrow> getDeployCSIConfig c s = (Inr b, s1))
          \<and> (\<forall>e. ParseBool v = Inl e \<longrightarrow> getDeployCSIConfig c s = (Inl (ParseBoolFailed v), s1)))
       \<and> (dataOrEmpty operatorConfig deployCSIKey = None \<longrightarrow>
            (\<forall>s2. clientGet CustomResourceDefinitionKind [] ''storageclusters.ocs.openshift.io'' s1 = (Inl NotFound, s2)
                  \<longrightarrow> getDeployCSIConfig c s = (Inr True, s2))
          \<and> (\<forall>crd s2. clientGet CustomResourceDefinitionKind [] ''storageclusters.ocs.openshift.io'' s1 = (Inr crd, s2)
                  \<longrightarrow> getDeployCSIConfig c s = (Inr False, s2))
          \<and> (\<forall>e s2. clientGet CustomResourceDefinitionKind [] ''storageclusters.ocs.openshift.io'' s1 = (Inl e, s2) \<and> e \<noteq> NotFound
                  \<longrightarrow> getDeployCSIConfig c s = (Inl (VerifyStorageClusterCRDFailed e), s2)))"
  using assms by (simp add: getDeployCSIConfig_def IsNotFound_def)

theorem getDeployCSIConfig_resolves_flag_witness:
  "getDeployCSIConfig exampleReconciler noFlagCluster
     = (Inr True, afterGets noFlagCluster [operatorConfigKey, storageClusterCRDKey])
   \<and> getDeployCSIConfig exampleReconciler crdCluster
     = (Inr False, afterGets crdCluster [operatorConfigKey, storageClusterCRDKey])
   \<and> getDeployCSIConfig exampleReconciler disabledCluster
     = (Inr False, afterGets disabledCluster [operatorConfigKey])
   \<and> getDeployCSIConfig exampleReconciler badFlagCluster
     = (Inl (ParseBoolFailed ''yes''), afterGets badFlagCluster [operatorConfigKey])
   \<and> getDeployCSIConfig exampleReconciler (noFlagCluster\<lparr>faults := [None, Some Unavailable]\<rparr>)
     = (Inl (VerifyStorageClusterCRDFailed Unavailable),
        afterGets noFlagCluster [operatorConfigKey, storageClusterCRDKey])"
proof -
  let ?c = exampleReconciler
  have g: "clientGet ConfigMapKind (OperatorNamespace ?c) operatorConfigMapName noFlagCluster
            = (Inr (operatorConfigWith None), afterGets noFlagCluster [operatorConfigKey])"
    "clientGet ConfigMapKind (OperatorNamespace ?c) operatorConfigMapName crdCluster
            = (Inr (operatorConfigWith (Some [''OCS_METRICS_LABELS'' \<mapsto> ''team: storage''])), afterGets crdCluster [operatorConfigKey])"
    "clientGet ConfigMapKind (OperatorNamespace ?c) operatorConfigMapName disabledCluster
            = (Inr (operatorConfigWith (Some [''DEPLOY_CSI'' \<mapsto> ''false''])), afterGets disabledCluster [operatorConfigKey])"
    "clientGet ConfigMapKind (OperatorNamespace ?c) operatorConfigMapName badFlagCluster
            = (Inr (operatorConfigWith (Some [''DEPLOY_CSI'' \<mapsto> ''yes''])), afterGets badFlagCluster [operatorConfigKey])"
    "clientGet ConfigMapKind (OperatorNamespace ?c) operatorConfigMapName (noFlagCluster\<lparr>faults := [None, Some Unavailable]\<rparr>)
            = (Inr (operatorConfigWith None), (afterGets noFlagCluster [operatorConfigKey])\<lparr>faults := [Some Unavailable]\<rparr>)"
    by (simp_all add: example_defs client_defs operatorConfigMapName_def noFlagCluster_def crdCluster_def
        badFlagCluster_def afterGets_def operatorConfigKey_def)
  have p: "clientGet CustomResourceDefinitionKind [] ''storageclusters.ocs.openshift.io'' (afterGets noFlagCluster [operatorConfigKey])
            = (Inl NotFound, afterGets noFlagCluster [operatorConfigKey, storageClusterCRDKey])"
    "clientGet CustomResourceDefinitionKind [] ''storageclusters.ocs.openshift.io'' (afterGets crdCluster [operatorConfigKey])
            = (Inr (namedObject [] ''storageclusters.ocs.openshift.io''), afterGets crdCluster [operatorConfigKey, storageClusterCRDKey])"
    "clientGet CustomResourceDefinitionKind [] ''storageclusters.ocs.openshift.io'' ((afterGets noFlagCluster [operatorConfigKey])\<lparr>faults := [Some Unavailable]\<rparr>)
            = (Inl Unavailable, afterGets noFlagCluster [operatorConfigKey, storageClusterCRDKey])"
    by (simp_all add: example_defs client_defs noFlagCluster_def crdCluster_def afterGets_def
        operatorConfigKey_def storageClusterCRDKey_def)
  have d: "dataOrEmpty (operatorConfigWith None) deployCSIKey = None"
    "dataOrEmpty (operatorConfigWith (Some [''OCS_METRICS_LABELS'' \<mapsto> ''team: storage''])) deployCSIKey = None"
    "dataOrEmpty (operatorConfigWith (Some [''DEPLOY_CSI'' \<mapsto> ''false''])) deployCSIKey = Some ''false''"
    "dataOrEmpty (operatorConfigWith (Some [''DEPLOY_CSI'' \<mapsto> ''yes''])) deployCSIKey = Some ''yes''"
    by (simp_all add: dataOrEmpty_def operatorConfigWith_def deployCSIKey_def)
  have b: "ParseBool ''false'' = Inr False" "ParseBool ''yes'' = Inl (SyntaxError ''yes'')"
    by (simp_all add: ParseBool_def)
  note t1 = getDeployCSIConfig_resolves_flag[OF g(1), THEN conjunct2, rule_format, OF d(1)]
  note t2 = getDeployCSIConfig_resolves_flag[OF g(2), THEN conjunct2, rule_format, OF d(2)]
  note t3 = getDeployCSIConfig_resolves_flag[OF g(3), THEN conjunct1, rule_format, OF d(3)]
  note t4 = getDeployCSIConfig_resolves_flag[OF g(4), THEN conjunct1, rule_format, OF d(4)]
  note t5 = getDeployCSIConfig_resolves_flag[OF g(5), THEN conjunct2, rule_format, OF d(1)]
  have "getDeployCSIConfig ?c noFlagCluster
     = (Inr True, afterGets noFlagCluster [operatorConfigKey, storageClusterCRDKey])"
    using t1 p(1) by blast
  moreover have "getDeployCSIConfig ?c crdCluster
     = (Inr False, afterGets crdCluster [operatorConfigKey, storageClusterCRDKey])"
    using t2 p(2) by blast
  moreover have "getDeployCSIConfig ?c disabledCluster
     = (Inr False, afterGets disabledCluster [operatorConfigKey])"
    using t3 b(1) by blast
  moreover have "getDeployCSIConfig ?c badFlagCluster
     = (Inl (ParseBoolFailed ''yes''), afterGets badFlagCluster [operatorConfigKey])"
    using t4 b(2) by blast
  moreover have "getDeployCSIConfig ?c (noFlagCluster\<lparr>faults := [None, Some Unavailable]\<rparr>)
     = (Inl (VerifyStorageClusterCRDFailed Unavailable),
        afterGets noFlagCluster [operatorConfigKey, storageClusterCRDKey])"
    using t5 p(3) by blast
  ultimately show ?thesis by blast
qed

text \<open>
  C2. The two reads of the operator config map differ. With the config map absent (and no
  other failure), \<open>getOperatorConfig\<close> turns the NotFound into an empty config map, but
  \<open>getDeployCSIConfig\<close> returns the error "failed to get operator configmap" after its
  one read: it does not go on to probe the CRD, and the pass fails.
\<close>

theorem getDeployCSIConfig_fails_without_configmap:
  assumes "map_of (objects s) (ConfigMapKind, OperatorNamespace c, operatorConfigMapName) = None"
      and "faults s = []"
  shows "getDeployCSIConfig c s =
           (Inl (GetOperatorConfigMapFailed NotFound),
            s\<lparr>calls := calls s @ [GetCall (ConfigMapKind, OperatorNamespace c, operatorConfigMapName)]\<rparr>)
       \<and> getOperatorConfig c s =
           (Inr emptyObject,
            s\<lparr>calls := calls s @ [GetCall (ConfigMapKind, OperatorNamespace c, operatorConfigMapName)]\<rparr>)"
  using assms
  by (simp add: getDeployCSIConfig_def getOperatorConfig_def clientGet_def issue_def IsNotFound_def)

theorem getDeployCSIConfig_fails_without_configmap_witness:
  "getDeployCSIConfig exampleReconciler bootstrapCluster =
     (Inl (GetOperatorConfigMapFailed NotFound), afterGets bootstrapCluster [operatorConfigKey])
   \<and> fst (getOperatorConfig exampleReconciler bootstrapCluster) = Inr emptyObject
   \<and> fst (Reconcile exampleReconciler examplePkg exampleRequest bootstrapCluster) =
       Inl (GetOperatorConfigMapFailed NotFound)"
proof -
  have a: "map_of (objects bootstrapCluster)
             (ConfigMapKind, OperatorNamespace exampleReconciler, operatorConfigMapName) = None"
    and b: "faults bootstrapCluster = []"
    by (simp_all add: example_defs operatorConfigMapName_def)
  have e: "bootstrapCluster\<lparr>calls := calls bootstrapCluster @
             [GetCall (ConfigMapKind, OperatorNamespace exampleReconciler, operatorConfigMapName)]\<rparr>
           = afterGets bootstrapCluster [operatorConfigKey]"
    by (simp add: afterGets_def operatorConfigKey_def exampleReconciler_def operatorConfigMapName_def)
  have r: "fst (Reconcile exampleReconciler examplePkg exampleRequest bootstrapCluster) =
       Inl (GetOperatorConfigMapFailed NotFound)"
    by (simp add: Reconcile_def precheck_defs example_defs client_defs Let_def)
  show ?thesis
    using getDeployCSIConfig_fails_without_configmap[OF a b] r by (simp add: e)
qed

text \<open>
  C3. For a webhook configuration with at least one webhook, the mutate function of
  \<open>reconcileSubscriptionValidatingWebhook\<close> returns the configuration with the first
  webhook overwritten by the desired state (name, selectors, service namespace, and the
  other fields of the template) and with exactly the certificate bundle the first webhook
  had before; so a bundle that is not empty stays as it is, byte for byte. (The template
  must set the service reference, as the assignment of its namespace needs it.) The same
  holds for the stored object across the whole step, whatever the step returns.
\<close>

theorem webhookMutateFn_keeps_CABundle:
  "(Webhooks whConfig \<noteq> [] \<and> Service (ClientConfig (SubscriptionValidatingWebhook p)) = Some svc \<longrightarrow>
      (\<exists>whConfig' wh.
           webhookMutateFn c p whConfig = Inr whConfig'
         \<and> Webhooks whConfig' = wh # tl (Webhooks whConfig)
         \<and> CABundle (ClientConfig wh) = CABundle (ClientConfig (hd (Webhooks whConfig)))
         \<and> whName wh = Name (meta whConfig)
         \<and> NamespaceSelector wh = Some \<lparr>MatchLabels = [''kubernetes.io/metadata.name'' \<mapsto> OperatorNamespace c]\<rparr>
         \<and> ObjectSelector wh = Some \<lparr>MatchLabels = [''managed-by'' \<mapsto> ''webhook.subscription.ocs.openshift.io'']\<rparr>
         \<and> Service (ClientConfig wh) = Some (svc\<lparr>svcNamespace := OperatorNamespace c\<rparr>)
         \<and> URL (ClientConfig wh) = URL (ClientConfig (SubscriptionValidatingWebhook p))
         \<and> whOther wh = whOther (SubscriptionValidatingWebhook p)
         \<and> Annotations (meta whConfig') = [''service.beta.openshift.io/inject-cabundle'' \<mapsto> ''true'']))
   \<and> (map_of (objects s) (ValidatingWebhookConfigurationKind, [], SubscriptionWebhookName p) = Some whConfig
        \<and> Webhooks whConfig \<noteq> [] \<longrightarrow>
      (\<exists>whConfig'.
           map_of (objects (snd (reconcileSubscriptionValidatingWebhook c p s)))
             (ValidatingWebhookConfigurationKind, [], SubscriptionWebhookName p) = Some whConfig'
         \<and> Webhooks whConfig' \<noteq> []
         \<and> CABundle (ClientConfig (hd (Webhooks whConfig'))) = CABundle (ClientConfig (hd (Webhooks whConfig)))))"
proof (intro conjI impI)
  assume a: "Webhooks whConfig \<noteq> [] \<and> Service (ClientConfig (SubscriptionValidatingWebhook p)) = Some svc"
  then show "\<exists>whConfig' wh.
           webhookMutateFn c p whConfig = Inr whConfig'
         \<and> Webhooks whConfig' = wh # tl (Webhooks whConfig)
         \<and> CABundle (ClientConfig wh) = CABundle (ClientConfig (hd (Webhooks whConfig)))
         \<and> whName wh = Name (meta whConfig)
         \<and> NamespaceSelector wh = Some \<lparr>MatchLabels = [''kubernetes.io/metadata.name'' \<mapsto> OperatorNamespace c]\<rparr>
         \<and> ObjectSelector wh = Some \<lparr>MatchLabels = [''managed-by'' \<mapsto> ''webhook.subscription.ocs.openshift.io'']\<rparr>
         \<and> Service (ClientConfig wh) = Some (svc\<lparr>svcNamespace := OperatorNamespace c\<rparr>)
         \<and> URL (ClientConfig wh) = URL (ClientConfig (SubscriptionValidatingWebhook p))
         \<and> whOther wh = whOther (SubscriptionValidatingWebhook p)
         \<and> Annotations (meta whConfig') = [''service.beta.openshift.io/inject-cabundle'' \<mapsto> ''true'']"
    by (cases "Webhooks whConfig")
       (simp_all add: webhookMutateFn_def Let_def subscriptionLabelKey_def subscriptionLabelValue_def)
next
  assume "map_of (objects s) (ValidatingWebhookConfigurationKind, [], SubscriptionWebhookName p) = Some whConfig
        \<and> Webhooks whConfig \<noteq> []"
  then show "\<exists>whConfig'.
           map_of (objects (snd (reconcileSubscriptionValidatingWebhook c p s)))
             (ValidatingWebhookConfigurationKind, [], SubscriptionWebhookName p) = Some whConfig'
         \<and> Webhooks whConfig' \<noteq> []
         \<and> CABundle (ClientConfig (hd (Webhooks whConfig'))) = CABundle (ClientConfig (hd (Webhooks whConfig)))"
    by (blast intro: webhook_step_keeps_stored_bundle)
qed

theorem webhookMutateFn_keeps_CABundle_witness:
  "Webhooks injectedWebhookConfig \<noteq> []
   \<and> CABundle (ClientConfig (hd (Webhooks injectedWebhookConfig))) = [0x30, 0x82, 0x01]
   \<and> (\<exists>whConfig' wh.
          webhookMutateFn exampleReconciler examplePkg injectedWebhookConfig = Inr whConfig'
        \<and> Webhooks whConfig' = [wh]
        \<and> CABundle (ClientConfig wh) = [0x30, 0x82, 0x01]
        \<and> whName wh = ''subscription.ocs.openshift.io'')
   \<and> (\<exists>whConfig'.
          map_of (objects (snd (reconcileSubscriptionValidatingWebhook exampleReconciler examplePkg
                                  (clusterOf [stored ValidatingWebhookConfigurationKind injectedWebhookConfig]))))
            (ValidatingWebhookConfigurationKind, [], ''subscription.ocs.openshift.io'') = Some whConfig'
        \<and> CABundle (ClientConfig (hd (Webhooks whConfig'))) = [0x30, 0x82, 0x01])"
proof -
  let ?s = "clusterOf [stored ValidatingWebhookConfigurationKind injectedWebhookConfig]"
  have a: "Webhooks injectedWebhookConfig \<noteq> []"
    by (simp add: injectedWebhookConfig_def)
  have b: "Service (ClientConfig (SubscriptionValidatingWebhook examplePkg))
             = Some \<lparr>svcNamespace = [], svcName = ''webhook-server'', svcOther = ''/validate''\<rparr>"
    and n: "SubscriptionWebhookName examplePkg = ''subscription.ocs.openshift.io''"
    by (simp_all add: examplePkg_def exampleWebhookTemplate_def)
  have c: "CABundle (ClientConfig (hd (Webhooks injectedWebhookConfig))) = [0x30, 0x82, 0x01]"
    "tl (Webhooks injectedWebhookConfig) = []"
    "Name (meta injectedWebhookConfig) = ''subscription.ocs.openshift.io''"
    by (simp_all add: injectedWebhookConfig_def namedObject_def emptyObject_def emptyMeta_def)
  have d: "map_of (objects ?s) (ValidatingWebhookConfigurationKind, [], SubscriptionWebhookName examplePkg)
             = Some injectedWebhookConfig"
    by (simp add: n clusterOf_def stored_def keyOf_def injectedWebhookConfig_def namedObject_def
        emptyObject_def emptyMeta_def)
  note t = webhookMutateFn_keeps_CABundle[of injectedWebhookConfig examplePkg
      "\<lparr>svcNamespace = [], svcName = ''webhook-server'', svcOther = ''/validate''\<rparr>"
      exampleReconciler ?s]
  from t[THEN conjunct1, rule_format, OF conjI[OF a b]]
  have "\<exists>whConfig' wh.
          webhookMutateFn exampleReconciler examplePkg injectedWebhookConfig = Inr whConfig'
        \<and> Webhooks whConfig' = [wh]
        \<and> CABundle (ClientConfig wh) = [0x30, 0x82, 0x01]
        \<and> whName wh = ''subscription.ocs.openshift.io''"
    unfolding c by blast
  moreover from t[THEN conjunct2, rule_format, OF conjI[OF d a]]
  have "\<exists>whConfig'.
          map_of (objects (snd (reconcileSubscriptionValidatingWebhook exampleReconciler examplePkg ?s)))
            (ValidatingWebhookConfigurationKind, [], ''subscription.ocs.openshift.io'') = Some whConfig'
        \<and> CABundle (ClientConfig (hd (Webhooks whConfig'))) = [0x30, 0x82, 0x01]"
    unfolding c n by blast
  ultimately show ?thesis
    using a c by blast
qed




text \<open>
  C7. A pass whose first three steps succeed and whose flag resolution returns false
  returns no error, and it leaves every CSI-managed resource alone: the stored objects
  under their keys are what they were, and no create or update was issued for any of
  them. (The client has no delete at all.)
\<close>

theorem Reconcile_disabled_leaves_csi_resources:
  assumes w: "reconcileSubscriptionValidatingWebhook c p s = (Inr u1, s1)"
      and l: "labelClientOperatorSubscription c s1 = (Inr u2, s2)"
      and e: "ensureConsolePlugin c p s2 = (Inr u3, s3)"
      and f: "getDeployCSIConfig c s3 = (Inr False, s4)"
      and names: "NginxConfigMapName p \<noteq> MonConfigMapName p" "NginxConfigMapName p \<noteq> EncryptionConfigMapName p"
  shows "Reconcile c p req s = (Inr (), s4)
       \<and> (\<forall>k \<in> set (csiManagedKeys c p). map_of (objects s4) k = map_of (objects s) k)
       \<and> (\<exists>cs. calls s4 = calls s @ cs
              \<and> (\<forall>call \<in> set cs. \<forall>k \<in> set (csiManagedKeys c p). writtenKey call \<noteq> Some k))"
proof -
  have r: "Reconcile c p req s = (Inr (), s4)"
    using w l e f by (simp add: Reconcile_def thenDo_def)
  have t: "touchesOnly (precheckKeys c p) s s4"
    using w l e f by (rule precheck_touches)
  have out: "k \<notin> precheckKeys c p" if "k \<in> set (csiManagedKeys c p)" for k
    using names that by (rule csiManaged_outside_precheck)
  have objs: "\<forall>k \<in> set (csiManagedKeys c p). map_of (objects s4) k = map_of (objects s) k"
    using t out by (blast intro: touchesOnly_lookup)
  from t obtain cs where cs: "calls s4 = calls s @ cs" "writesWithin (precheckKeys c p) cs"
    by (auto simp: touchesOnly_def)
  have "\<forall>call \<in> set cs. \<forall>k \<in> set (csiManagedKeys c p). writtenKey call \<noteq> Some k"
    using cs(2) out by (fastforce simp: writesWithin_def split: option.splits)
  with r objs cs(1) show ?thesis by blast
qed

theorem Reconcile_disabled_leaves_csi_resources_witness:
  "fst (Reconcile exampleReconciler examplePkg exampleRequest disabledCluster) = Inr ()
   \<and> map_of (objects (snd (Reconcile exampleReconciler examplePkg exampleRequest disabledCluster)))
        (ConfigMapKind, ''ns'', ''ceph-csi-configs'') = Some editedMonConfigMap
   \<and> map_of (objects (snd (Reconcile exampleReconciler examplePkg exampleRequest disabledCluster)))
        (SecurityContextConstraintsKind, [], ''ceph-csi-scc'') = None
   \<and> (\<exists>cs. calls (snd (Reconcile exampleReconciler examplePkg exampleRequest disabledCluster))
              = calls disabledCluster @ cs
          \<and> list_all (\<lambda>call. writtenKey call \<noteq> Some (SecurityContextConstraintsKind, [], ''ceph-csi-scc'')
                            \<and> writtenKey call \<noteq> Some (DeploymentKind, ''ns'', ''rbd-ctrlplugin'')) cs)"
proof -
  let ?c = exampleReconciler and ?p = examplePkg
  define s1 where "s1 = snd (reconcileSubscriptionValidatingWebhook ?c ?p disabledCluster)"
  define s2 where "s2 = snd (labelClientOperatorSubscription ?c s1)"
  define s3 where "s3 = snd (ensureConsolePlugin ?c ?p s2)"
  define s4 where "s4 = snd (getDeployCSIConfig ?c s3)"
  have w: "reconcileSubscriptionValidatingWebhook ?c ?p disabledCluster = (Inr (), s1)"
    unfolding s1_def by (simp add: precheck_defs example_defs client_defs Let_def)
  have l: "labelClientOperatorSubscription ?c s1 = (Inr (), s2)"
    unfolding s2_def s1_def by (simp add: precheck_defs example_defs client_defs Let_def)
  have e: "ensureConsolePlugin ?c ?p s2 = (Inr (), s3)"
    unfolding s3_def s2_def s1_def by (simp add: precheck_defs example_defs client_defs Let_def)
  have f: "getDeployCSIConfig ?c s3 = (Inr False, s4)"
    unfolding s4_def s3_def s2_def s1_def by (simp add: precheck_defs example_defs client_defs Let_def)
  have names: "NginxConfigMapName ?p \<noteq> MonConfigMapName ?p" "NginxConfigMapName ?p \<noteq> EncryptionConfigMapName ?p"
    by (simp_all add: examplePkg_def)
  have keys: "(ConfigMapKind, ''ns'', ''ceph-csi-configs'') \<in> set (csiManagedKeys ?c ?p)"
    "(SecurityContextConstraintsKind, [], ''ceph-csi-scc'') \<in> set (csiManagedKeys ?c ?p)"
    "(DeploymentKind, ''ns'', ''rbd-ctrlplugin'') \<in> set (csiManagedKeys ?c ?p)"
    by (simp_all add: csiManagedKeys_def examplePkg_def exampleReconciler_def)
  have before: "map_of (objects disabledCluster) (ConfigMapKind, ''ns'', ''ceph-csi-configs'') = Some editedMonConfigMap"
    "map_of (objects disabledCluster) (SecurityContextConstraintsKind, [], ''ceph-csi-scc'') = None"
    by (simp_all add: example_defs)
  from Reconcile_disabled_leaves_csi_resources[OF w l e f names, of exampleRequest]
  have r: "Reconcile ?c ?p exampleRequest disabledCluster = (Inr (), s4)"
    and o: "\<forall>k \<in> set (csiManagedKeys ?c ?p). map_of (objects s4) k = map_of (objects disabledCluster) k"
    and c: "\<exists>cs. calls s4 = calls disabledCluster @ cs
              \<and> (\<forall>call \<in> set cs. \<forall>k \<in> set (csiManagedKeys ?c ?p). writtenKey call \<noteq> Some k)"
    by blast+
  from c obtain cs where cs: "calls s4 = calls disabledCluster @ cs"
    "\<forall>call \<in> set cs. \<forall>k \<in> set (csiManagedKeys ?c ?p). writtenKey call \<noteq> Some k"
    by blast
  have "list_all (\<lambda>call. writtenKey call \<noteq> Some (SecurityContextConstraintsKind, [], ''ceph-csi-scc'')
                            \<and> writtenKey call \<noteq> Some (DeploymentKind, ''ns'', ''rbd-ctrlplugin'')) cs"
    using cs(2) keys by (auto simp: list_all_iff)
  with cs(1) r o keys before show ?thesis
    by auto
qed

text \<open>
  C8. For each of the four secondary watches (config maps, CRDs, subscriptions, webhook
  configurations), an event that passes the predicates of its watch enqueues exactly one
  request, for the name \<open>version\<close> with no namespace, whatever object changed; an event
  that does not pass enqueues nothing. Which events pass, for each watch: a config map
  event when the object (the new one of an update) is \<open>ocs-client-operator-config\<close> in the
  operator's namespace; every CRD event; a subscription event when the object is in the
  operator's namespace and, for an update, the labels of the old and the new object
  differ; a webhook configuration event when the object has the name of the subscription
  webhook.
\<close>

theorem watches_enqueue_cluster_version:
  "((k = ConfigMapKind \<or> k = CustomResourceDefinitionKind \<or> k = SubscriptionKind
       \<or> k = ValidatingWebhookConfigurationKind) \<and> passesFilter c p k e
      \<longrightarrow> enqueued c p k e = [\<lparr>reqNamespace = [], reqName = ''version''\<rparr>])
   \<and> (\<not> passesFilter c p k e \<longrightarrow> enqueued c p k e = [])
   \<and> passesFilter c p ConfigMapKind e =
       NewPredicateFuncs (\<lambda>obj. Namespace (meta obj) = OperatorNamespace c
                               \<and> Name (meta obj) = ''ocs-client-operator-config'') e
   \<and> enqueued c p ConfigMapKind (CreateEvent obj) =
       (if Namespace (meta obj) = OperatorNamespace c \<and> Name (meta obj) = ''ocs-client-operator-config''
        then [versionRequest] else [])
   \<and> enqueued c p ConfigMapKind (UpdateEvent old new) =
       (if Namespace (meta new) = OperatorNamespace c \<and> Name (meta new) = ''ocs-client-operator-config''
        then [versionRequest] else [])
   \<and> enqueued c p ConfigMapKind (DeleteEvent obj) =
       (if Namespace (meta obj) = OperatorNamespace c \<and> Name (meta obj) = ''ocs-client-operator-config''
        then [versionRequest] else [])
   \<and> enqueued c p ConfigMapKind (GenericEvent obj) =
       (if Namespace (meta obj) = OperatorNamespace c \<and> Name (meta obj) = ''ocs-client-operator-config''
        then [versionRequest] else [])
   \<and> passesFilter c p CustomResourceDefinitionKind e
   \<and> enqueued c p CustomResourceDefinitionKind e = [versionRequest]
   \<and> passesFilter c p SubscriptionKind e =
       (NewPredicateFuncs (\<lambda>obj. Namespace (meta obj) = OperatorNamespace c) e \<and> LabelChangedPredicate e)
   \<and> enqueued c p SubscriptionKind (CreateEvent obj) =
       (if Namespace (meta obj) = OperatorNamespace c then [versionRequest] else [])
   \<and> enqueued c p SubscriptionKind (UpdateEvent old new) =
       (if Namespace (meta new) = OperatorNamespace c \<and> Labels (meta old) \<noteq> Labels (meta new)
        then [versionRequest] else [])
   \<and> enqueued c p SubscriptionKind (DeleteEvent obj) =
       (if Namespace (meta obj) = OperatorNamespace c then [versionRequest] else [])
   \<and> enqueued c p SubscriptionKind (GenericEvent obj) =
       (if Namespace (meta obj) = OperatorNamespace c then [versionRequest] else [])
   \<and> passesFilter c p ValidatingWebhookConfigurationKind e =
       NewPredicateFuncs (\<lambda>obj. Name (meta obj) = SubscriptionWebhookName p) e
   \<and> enqueued c p ValidatingWebhookConfigurationKind (CreateEvent obj) =
       (if Name (meta obj) = SubscriptionWebhookName p then [versionRequest] else [])
   \<and> enqueued c p ValidatingWebhookConfigurationKind (UpdateEvent old new) =
       (if Name (meta new) = SubscriptionWebhookName p then [versionRequest] else [])
   \<and> enqueued c p ValidatingWebhookConfigurationKind (DeleteEvent obj) =
       (if Name (meta obj) = SubscriptionWebhookName p then [versionRequest] else [])
   \<and> enqueued c p ValidatingWebhookConfigurationKind (GenericEvent obj) =
       (if Name (meta obj) = SubscriptionWebhookName p then [versionRequest] else [])"
proof -
  have general:
    "((k = ConfigMapKind \<or> k = CustomResourceDefinitionKind \<or> k = SubscriptionKind
       \<or> k = ValidatingWebhookConfigurationKind) \<and> passesFilter c p k e
      \<longrightarrow> enqueued c p k e = [\<lparr>reqNamespace = [], reqName = ''version''\<rparr>])
     \<and> (\<not> passesFilter c p k e \<longrightarrow> enqueued c p k e = [])"
    by (cases e) (auto simp: watch_defs Let_def split: option.splits)
  have filters:
    "passesFilter c p ConfigMapKind e =
       NewPredicateFuncs (\<lambda>obj. Namespace (meta obj) = OperatorNamespace c
                               \<and> Name (meta obj) = ''ocs-client-operator-config'') e"
    "passesFilter c p CustomResourceDefinitionKind e"
    "passesFilter c p SubscriptionKind e =
       (NewPredicateFuncs (\<lambda>obj. Namespace (meta obj) = OperatorNamespace c) e \<and> LabelChangedPredicate e)"
    "passesFilter c p ValidatingWebhookConfigurationKind e =
       NewPredicateFuncs (\<lambda>obj. Name (meta obj) = SubscriptionWebhookName p) e"
    by (simp_all add: watch_defs Let_def)
  have crd: "enqueued c p CustomResourceDefinitionKind e = [versionRequest]"
    by (cases e) (simp_all add: watch_defs)
  have events:
    "enqueued c p ConfigMapKind (CreateEvent obj) =
       (if Namespace (meta obj) = OperatorNamespace c \<and> Name (meta obj) = ''ocs-client-operator-config''
        then [versionRequest] else [])"
    "enqueued c p ConfigMapKind (UpdateEvent old new) =
       (if Namespace (meta new) = OperatorNamespace c \<and> Name (meta new) = ''ocs-client-operator-config''
        then [versionRequest] else [])"
    "enqueued c p ConfigMapKind (DeleteEvent obj) =
       (if Namespace (meta obj) = OperatorNamespace c \<and> Name (meta obj) = ''ocs-client-operator-config''
        then [versionRequest] else [])"
    "enqueued c p ConfigMapKind (GenericEvent obj) =
       (if Namespace (meta obj) = OperatorNamespace c \<and> Name (meta obj) = ''ocs-client-operator-config''
        then [versionRequest] else [])"
    "enqueued c p SubscriptionKind (CreateEvent obj) =
       (if Namespace (meta obj) = OperatorNamespace c then [versionRequest] else [])"
    "enqueued c p SubscriptionKind (UpdateEvent old new) =
       (if Namespace (meta new) = OperatorNamespace c \<and> Labels (meta old) \<noteq> Labels (meta new)
        then [versionRequest] else [])"
    "enqueued c p SubscriptionKind (DeleteEvent obj) =
       (if Namespace (meta obj) = OperatorNamespace c then [versionRequest] else [])"
    "enqueued c p SubscriptionKind (GenericEvent obj) =
       (if Namespace (meta obj) = OperatorNamespace c then [versionRequest] else [])"
    "enqueued c p ValidatingWebhookConfigurationKind (CreateEvent obj) =
       (if Name (meta obj) = SubscriptionWebhookName p then [versionRequest] else [])"
    "enqueued c p ValidatingWebhookConfigurationKind (UpdateEvent old new) =
       (if Name (meta new) = SubscriptionWebhookName p then [versionRequest] else [])"
    "enqueued c p ValidatingWebhookConfigurationKind (DeleteEvent obj) =
       (if Name (meta obj) = SubscriptionWebhookName p then [versionRequest] else [])"
    "enqueued c p ValidatingWebhookConfigurationKind (GenericEvent obj) =
       (if Name (meta obj) = SubscriptionWebhookName p then [versionRequest] else [])"
    by (simp_all add: watch_defs Let_def)
  show ?thesis
    using general filters crd events by blast
qed

theorem watches_enqueue_cluster_version_witness:
  "passesFilter exampleReconciler examplePkg ConfigMapKind
      (UpdateEvent (operatorConfigWith None) (operatorConfigWith (Some [''DEPLOY_CSI'' \<mapsto> ''true''])))
   \<and> enqueued exampleReconciler examplePkg ConfigMapKind
      (UpdateEvent (operatorConfigWith None) (operatorConfigWith (Some [''DEPLOY_CSI'' \<mapsto> ''true''])))
     = [\<lparr>reqNamespace = [], reqName = ''version''\<rparr>]
   \<and> \<not> passesFilter exampleReconciler examplePkg ConfigMapKind (CreateEvent editedMonConfigMap)
   \<and> enqueued exampleReconciler examplePkg ConfigMapKind (CreateEvent editedMonConfigMap) = []
   \<and> enqueued exampleReconciler examplePkg CustomResourceDefinitionKind (DeleteEvent exampleCRD)
     = [\<lparr>reqNamespace = [], reqName = ''version''\<rparr>]
   \<and> enqueued exampleReconciler examplePkg SubscriptionKind
        (UpdateEvent exampleSubscription labelledSubscription)
     = [\<lparr>reqNamespace = [], reqName = ''version''\<rparr>]
   \<and> enqueued exampleReconciler examplePkg SubscriptionKind
        (UpdateEvent exampleSubscription emptyLabelSubscription)
     = [\<lparr>reqNamespace = [], reqName = ''version''\<rparr>]
   \<and> enqueued exampleReconciler examplePkg SubscriptionKind
        (UpdateEvent labelledSubscription (labelledSubscription\<lparr>Package := ''other''\<rparr>)) = []
   \<and> enqueued exampleReconciler examplePkg SubscriptionKind
        (CreateEvent ((namedObject ''elsewhere'' ''client-sub'')\<lparr>Package := ''ocs-client-operator''\<rparr>)) = []
   \<and> enqueued exampleReconciler examplePkg ValidatingWebhookConfigurationKind
        (UpdateEvent injectedWebhookConfig injectedWebhookConfig)
     = [\<lparr>reqNamespace = [], reqName = ''version''\<rparr>]
   \<and> enqueued exampleReconciler examplePkg ValidatingWebhookConfigurationKind
        (CreateEvent (namedObject [] ''another-webhook'')) = []"
proof -
  let ?c = exampleReconciler and ?p = examplePkg
  let ?e = "UpdateEvent (operatorConfigWith None) (operatorConfigWith (Some [''DEPLOY_CSI'' \<mapsto> ''true'']))"
  note t = watches_enqueue_cluster_version[where c = ?c and p = ?p]
  note passing = t[where k = ConfigMapKind, THEN conjunct1, rule_format]
    and filtered = t[where k = ConfigMapKind, THEN conjunct2, THEN conjunct1, rule_format]
    and cmFilter = t[THEN conjunct2, THEN conjunct2, THEN conjunct1]
    and crdEnqueued = t[THEN conjunct2, THEN conjunct2, THEN conjunct2, THEN conjunct2, THEN conjunct2, THEN conjunct2, THEN conjunct2, THEN conjunct2, THEN conjunct1]
    and subCreate = t[THEN conjunct2, THEN conjunct2, THEN conjunct2, THEN conjunct2, THEN conjunct2, THEN conjunct2, THEN conjunct2, THEN conjunct2, THEN conjunct2, THEN conjunct2, THEN conjunct1]
    and subUpdate = t[THEN conjunct2, THEN conjunct2, THEN conjunct2, THEN conjunct2, THEN conjunct2, THEN conjunct2, THEN conjunct2, THEN conjunct2, THEN conjunct2, THEN conjunct2, THEN conjunct2, THEN conjunct1]
    and whCreate = t[THEN conjunct2, THEN conjunct2, THEN conjunct2, THEN conjunct2, THEN conjunct2, THEN conjunct2, THEN conjunct2, THEN conjunct2, THEN conjunct2, THEN conjunct2, THEN conjunct2, THEN conjunct2, THEN conjunct2, THEN conjunct2, THEN conjunct2, THEN conjunct1]
    and whUpdate = t[THEN conjunct2, THEN conjunct2, THEN conjunct2, THEN conjunct2, THEN conjunct2, THEN conjunct2, THEN conjunct2, THEN conjunct2, THEN conjunct2, THEN conjunct2, THEN conjunct2, THEN conjunct2, THEN conjunct2, THEN conjunct2, THEN conjunct2, THEN conjunct2, THEN conjunct1]
  have names: "OperatorNamespace ?c = ''ns''" "SubscriptionWebhookName ?p = ''subscription.ocs.openshift.io''"
    by (simp_all add: exampleReconciler_def examplePkg_def)
  have cm: "Namespace (meta (operatorConfigWith (Some [''DEPLOY_CSI'' \<mapsto> ''true'']))) = ''ns''"
    "Name (meta (operatorConfigWith (Some [''DEPLOY_CSI'' \<mapsto> ''true'']))) = ''ocs-client-operator-config''"
    "Name (meta editedMonConfigMap) = ''ceph-csi-configs''"
    by (simp_all add: example_defs)
  have sub: "Namespace (meta labelledSubscription) = ''ns''"
    "Namespace (meta emptyLabelSubscription) = ''ns''"
    "Namespace (meta (labelledSubscription\<lparr>Package := ''other''\<rparr>)) = ''ns''"
    "Namespace (meta ((namedObject ''elsewhere'' ''client-sub'')\<lparr>Package := ''ocs-client-operator''\<rparr>)) = ''elsewhere''"
    "Labels (meta exampleSubscription) = None"
    "Labels (meta emptyLabelSubscription) = Some Map.empty"
    "Labels (meta labelledSubscription) = Some [''managed-by'' \<mapsto> ''webhook.subscription.ocs.openshift.io'']"
    "Labels (meta (labelledSubscription\<lparr>Package := ''other''\<rparr>)) = Labels (meta labelledSubscription)"
    by (simp_all add: labelledSubscription_def emptyLabelSubscription_def example_defs)
  have wh: "Name (meta injectedWebhookConfig) = ''subscription.ocs.openshift.io''"
    "Name (meta (namedObject [] ''another-webhook'')) = ''another-webhook''"
    by (simp_all add: injectedWebhookConfig_def example_defs)
  have a: "passesFilter ?c ?p ConfigMapKind ?e"
    unfolding cmFilter by (simp add: names cm)
  have b: "\<not> passesFilter ?c ?p ConfigMapKind (CreateEvent editedMonConfigMap)"
    unfolding cmFilter by (simp add: names cm)
  have c1: "enqueued ?c ?p ConfigMapKind ?e = [\<lparr>reqNamespace = [], reqName = ''version''\<rparr>]"
    using a by (intro passing) simp
  have c2: "enqueued ?c ?p ConfigMapKind (CreateEvent editedMonConfigMap) = []"
    using b by (rule filtered)
  have crd: "enqueued ?c ?p CustomResourceDefinitionKind (DeleteEvent exampleCRD)
     = [\<lparr>reqNamespace = [], reqName = ''version''\<rparr>]"
    unfolding crdEnqueued by (simp add: versionRequest_def)
  have s1: "enqueued ?c ?p SubscriptionKind (UpdateEvent exampleSubscription labelledSubscription)
     = [\<lparr>reqNamespace = [], reqName = ''version''\<rparr>]"
    unfolding subUpdate by (simp add: names sub versionRequest_def)
  have s2: "enqueued ?c ?p SubscriptionKind (UpdateEvent exampleSubscription emptyLabelSubscription)
     = [\<lparr>reqNamespace = [], reqName = ''version''\<rparr>]"
    unfolding subUpdate by (simp add: names sub versionRequest_def)
  have s3: "enqueued ?c ?p SubscriptionKind
        (UpdateEvent labelledSubscription (labelledSubscription\<lparr>Package := ''other''\<rparr>)) = []"
    unfolding subUpdate by (simp add: names sub)
  have s4: "enqueued ?c ?p SubscriptionKind
        (CreateEvent ((namedObject ''elsewhere'' ''client-sub'')\<lparr>Package := ''ocs-client-operator''\<rparr>)) = []"
    unfolding subCreate by (simp add: names namedObject_def)
  have w1: "enqueued ?c ?p ValidatingWebhookConfigurationKind
        (UpdateEvent injectedWebhookConfig injectedWebhookConfig)
     = [\<lparr>reqNamespace = [], reqName = ''version''\<rparr>]"
    unfolding whUpdate by (simp add: names wh versionRequest_def)
  have w2: "enqueued ?c ?p ValidatingWebhookConfigurationKind
        (CreateEvent (namedObject [] ''another-webhook'')) = []"
    unfolding whCreate by (simp add: names namedObject_def)
  from a b c1 c2 crd s1 s2 s3 s4 w1 w2 show ?thesis
    by blast
qed

text \<open>
  C9. The mutate functions for the SecurityContextConstraints and for the ConsolePlugin
  never fail; the object they return has the version token the object had before, and is
  otherwise the freshly computed desired state.
\<close>

theorem mutateFns_restore_ResourceVersion:
  "(\<exists>scc'. sccMutateFn c p scc = Inr scc'
       \<and> ResourceVersion (meta scc') = ResourceVersion (meta scc)
       \<and> withoutResourceVersion scc' =
           withoutResourceVersion (SetSecurityContextConstraintsDesiredState p scc (OperatorNamespace c)))
   \<and> (\<exists>plugin'. consolePluginMutateFn c p plugin = Inr plugin'
       \<and> ResourceVersion (meta plugin') = ResourceVersion (meta plugin)
       \<and> withoutResourceVersion plugin' =
           withoutResourceVersion (GetConsolePlugin p (ConsolePort c) (OperatorNamespace c)))"
  by (simp add: sccMutateFn_def consolePluginMutateFn_def withoutResourceVersion_def Let_def)

theorem mutateFns_restore_ResourceVersion_witness:
  "sccMutateFn exampleReconciler examplePkg
      ((namedObject [] ''ceph-csi-scc'')\<lparr>meta := (meta (namedObject [] ''ceph-csi-scc''))\<lparr>ResourceVersion := ''41''\<rparr>,
                                          Content := ''edited''\<rparr>)
     = Inr ((namedObject [] ''ceph-csi-scc'')\<lparr>meta := (meta (namedObject [] ''ceph-csi-scc''))\<lparr>ResourceVersion := ''41''\<rparr>,
                                          Content := ''scc for ns''\<rparr>)"
  using mutateFns_restore_ResourceVersion[of exampleReconciler examplePkg
      "(namedObject [] ''ceph-csi-scc'')\<lparr>meta := (meta (namedObject [] ''ceph-csi-scc''))\<lparr>ResourceVersion := ''41''\<rparr>,
                                          Content := ''edited''\<rparr>"]
  by (simp add: sccMutateFn_def example_defs Let_def)

text \<open>
  C10. When the operator's namespace has no subscription for the package
  \<open>ocs-client-operator\<close>, \<open>labelClientOperatorSubscription\<close> returns an error after its one
  list call, and so does \<open>Reconcile\<close>: when the webhook step has succeeded the pass ends
  with the result of the labelling step, the list call being its last call, so neither
  the console plugin step nor the CSI branch runs. When the list succeeds and finds such a
  subscription, an update is issued exactly when the subscription does not carry the label
  \<open>managed-by\<close> with the value \<open>webhook.subscription.ocs.openshift.io\<close> already.
\<close>

theorem labelClientOperatorSubscription_requires_subscription:
  "(\<not> hasOperatorSubscription c s \<longrightarrow>
       (\<exists>e. labelClientOperatorSubscription c s =
          (Inl e, s\<lparr>faults := tl (faults s), calls := calls s @ [ListCall SubscriptionKind (OperatorNamespace c)]\<rparr>))
     \<and> (\<exists>e. fst (Reconcile c p req s) = Inl e)
     \<and> (\<forall>u s1. reconcileSubscriptionValidatingWebhook c p s = (Inr u, s1) \<longrightarrow>
          Reconcile c p req s = labelClientOperatorSubscription c s1
          \<and> calls (snd (Reconcile c p req s)) = calls s1 @ [ListCall SubscriptionKind (OperatorNamespace c)]
          \<and> objects (snd (Reconcile c p req s)) = objects s1))
   \<and> (\<forall>items s1 sub.
         clientList SubscriptionKind (OperatorNamespace c) s = (Inr items, s1)
         \<and> Find items (\<lambda>sub. Package sub = ''ocs-client-operator'') = Some sub \<longrightarrow>
         calls (snd (labelClientOperatorSubscription c s)) =
           calls s1 @ (if labelsOrEmpty (meta sub) subscriptionLabelKey = Some subscriptionLabelValue then []
                       else [UpdateCall (keyOf SubscriptionKind sub)]))"
proof -
  have a: "\<exists>e. labelClientOperatorSubscription c s =
          (Inl e, s\<lparr>faults := tl (faults s), calls := calls s @ [ListCall SubscriptionKind (OperatorNamespace c)]\<rparr>)"
    if "\<not> hasOperatorSubscription c s"
    using that by (rule label_without_subscription)
  have b: "\<exists>e. fst (Reconcile c p req s) = Inl e" if no: "\<not> hasOperatorSubscription c s"
  proof -
    obtain r1 s1 where w: "reconcileSubscriptionValidatingWebhook c p s = (r1, s1)" by force
    have no1: "\<not> hasOperatorSubscription c s1"
      using no webhook_keeps_subscriptions[OF w] by simp
    from label_without_subscription[OF no1] obtain e where
      "labelClientOperatorSubscription c s1 =
          (Inl e, s1\<lparr>faults := tl (faults s1), calls := calls s1 @ [ListCall SubscriptionKind (OperatorNamespace c)]\<rparr>)"
      by blast
    with w show ?thesis
      by (cases r1) (simp_all add: Reconcile_def thenDo_def)
  qed
  have c: "Reconcile c p req s = labelClientOperatorSubscription c s1
          \<and> calls (snd (Reconcile c p req s)) = calls s1 @ [ListCall SubscriptionKind (OperatorNamespace c)]
          \<and> objects (snd (Reconcile c p req s)) = objects s1"
    if no: "\<not> hasOperatorSubscription c s"
      and w: "reconcileSubscriptionValidatingWebhook c p s = (Inr u, s1)" for u s1
  proof -
    have no1: "\<not> hasOperatorSubscription c s1"
      using no webhook_keeps_subscriptions[OF w] by simp
    from label_without_subscription[OF no1] obtain e where
      "labelClientOperatorSubscription c s1 =
          (Inl e, s1\<lparr>faults := tl (faults s1), calls := calls s1 @ [ListCall SubscriptionKind (OperatorNamespace c)]\<rparr>)"
      by blast
    with w show ?thesis
      by (simp add: Reconcile_def thenDo_def)
  qed
  show ?thesis
    using a b c label_calls[of c s] by blast
qed

theorem labelClientOperatorSubscription_requires_subscription_witness:
  "\<not> hasOperatorSubscription exampleReconciler noSubscriptionCluster
   \<and> (\<exists>e. fst (labelClientOperatorSubscription exampleReconciler noSubscriptionCluster) = Inl e)
   \<and> (\<exists>e. fst (Reconcile exampleReconciler examplePkg exampleRequest noSubscriptionCluster) = Inl e)
   \<and> calls (snd (labelClientOperatorSubscription exampleReconciler
               (clusterOf [stored SubscriptionKind exampleSubscription])))
       = [ListCall SubscriptionKind ''ns'', UpdateCall (SubscriptionKind, ''ns'', ''client-sub'')]
   \<and> calls (snd (labelClientOperatorSubscription exampleReconciler
               (clusterOf [stored SubscriptionKind labelledSubscription])))
       = [ListCall SubscriptionKind ''ns'']"
proof -
  let ?c = exampleReconciler
  have no: "\<not> hasOperatorSubscription ?c noSubscriptionCluster"
    by (simp add: hasOperatorSubscription_def subscriptionsIn_def noSubscriptionCluster_def example_defs)
  have l1: "clientList SubscriptionKind (OperatorNamespace ?c) (clusterOf [stored SubscriptionKind exampleSubscription])
             = (Inr [exampleSubscription],
                (clusterOf [stored SubscriptionKind exampleSubscription])\<lparr>calls := [ListCall SubscriptionKind ''ns'']\<rparr>)"
    and l2: "clientList SubscriptionKind (OperatorNamespace ?c) (clusterOf [stored SubscriptionKind labelledSubscription])
             = (Inr [labelledSubscription],
                (clusterOf [stored SubscriptionKind labelledSubscription])\<lparr>calls := [ListCall SubscriptionKind ''ns'']\<rparr>)"
    by (simp_all add: clientList_def issue_def labelledSubscription_def example_defs)
  have f1: "Find [exampleSubscription] (\<lambda>sub. Package sub = ''ocs-client-operator'') = Some exampleSubscription"
    and f2: "Find [labelledSubscription] (\<lambda>sub. Package sub = ''ocs-client-operator'') = Some labelledSubscription"
    by (simp_all add: Find_def labelledSubscription_def exampleSubscription_def)
  have lab: "labelsOrEmpty (meta exampleSubscription) subscriptionLabelKey \<noteq> Some subscriptionLabelValue"
    "labelsOrEmpty (meta labelledSubscription) subscriptionLabelKey = Some subscriptionLabelValue"
    "keyOf SubscriptionKind exampleSubscription = (SubscriptionKind, ''ns'', ''client-sub'')"
    by (simp_all add: labelledSubscription_def example_defs labelsOrEmpty_def subscriptionLabelKey_def
        subscriptionLabelValue_def)
  note t = labelClientOperatorSubscription_requires_subscription
  from t[of ?c noSubscriptionCluster examplePkg exampleRequest] no
  have a: "\<exists>e. fst (labelClientOperatorSubscription ?c noSubscriptionCluster) = Inl e"
    and b: "\<exists>e. fst (Reconcile ?c examplePkg exampleRequest noSubscriptionCluster) = Inl e"
    by auto
  from t[of ?c "clusterOf [stored SubscriptionKind exampleSubscription]" examplePkg exampleRequest] l1 f1 lab
  have c: "calls (snd (labelClientOperatorSubscription ?c (clusterOf [stored SubscriptionKind exampleSubscription])))
       = [ListCall SubscriptionKind ''ns'', UpdateCall (SubscriptionKind, ''ns'', ''client-sub'')]"
    by simp
  from t[of ?c "clusterOf [stored SubscriptionKind labelledSubscription]" examplePkg exampleRequest] l2 f2 lab
  have d: "calls (snd (labelClientOperatorSubscription ?c (clusterOf [stored SubscriptionKind labelledSubscription])))
       = [ListCall SubscriptionKind ''ns'']"
    by simp
  from no a b c d show ?thesis by blast
qed

end
